theory Spec2Isabelle
  imports Complex_Main "HOL-Library.AList"
begin

section \<open>JavaScript values\<close>

text \<open>
  Strings are byte strings (the UTF-8 encoding of the command-line tokens and of the
  JSON texts); every character the program inspects (\<open>=\<close>, \<open>-\<close>, \<open>@\<close>, the letters of
  \<open>json:\<close>, \<open>true\<close>, \<open>false\<close>, \<open>$getFrom\<close>, \<open>$sendTo\<close>, \<open>ws\<close>) is ASCII, so the byte
  view and JavaScript's code-unit view agree on every test the program makes.

  A value that came out of \<open>JSON.parse\<close> or of the RPC transport is a \<open>json\<close>. An object is
  the list of its own enumerable properties in enumeration order; the property names of
  a JavaScript object are pairwise distinct. A possibly \<open>undefined\<close> value is a
  \<open>json option\<close>, \<open>None\<close> being \<open>undefined\<close>. Numbers are never computed with, only
  tested for truthiness and passed on, so a number is the rational its literal denotes.
\<close>

datatype json =
    JNull
  | JBool bool
  | JNum rat
  | JStr string
  | JArr "json list"
  | JObj "(string \<times> json) list"

text \<open>JavaScript truthiness, as \<open>if (x)\<close> and \<open>!x\<close> read a value.\<close>

fun truthy :: "json \<Rightarrow> bool" where
  "truthy JNull = False"
| "truthy (JBool b) = b"
| "truthy (JNum n) = (n \<noteq> 0)"
| "truthy (JStr s) = (s \<noteq> [])"
| "truthy (JArr xs) = True"
| "truthy (JObj kvs) = True"

fun truthy_opt :: "json option \<Rightarrow> bool" where
  "truthy_opt None = False"
| "truthy_opt (Some v) = truthy v"

text \<open>\<open>lodash/isObject\<close>: objects and arrays (and functions, which no JSON value is).\<close>

fun isObject :: "json \<Rightarrow> bool" where
  "isObject (JArr xs) = True"
| "isObject (JObj kvs) = True"
| "isObject v = False"

text \<open>The decimal numeral of an array index, as JavaScript names the index property.\<close>

fun string_of_nat :: "nat \<Rightarrow> string" where
  "string_of_nat n =
     (if n < 10 then [''0123456789'' ! n]
      else string_of_nat (n div 10) @ [''0123456789'' ! (n mod 10)])"

declare string_of_nat.simps [simp del]

text \<open>
  \<open>lodash/keys\<close>: the own enumerable property names. Of an array these are its indices;
  a primitive has none that matter here (\<open>getKeys\<close> is only called after \<open>isObject\<close>).
\<close>

fun getKeys :: "json \<Rightarrow> string list" where
  "getKeys (JObj kvs) = map fst kvs"
| "getKeys (JArr xs) = map string_of_nat [0..<length xs]"
| "getKeys v = []"

text \<open>\<open>result[key]\<close> for an own property; \<open>None\<close> is \<open>undefined\<close>.\<close>

fun getProperty :: "json \<Rightarrow> string \<Rightarrow> json option" where
  "getProperty (JObj kvs) k = map_of kvs k"
| "getProperty (JArr xs) k = map_of (zip (map string_of_nat [0..<length xs]) xs) k"
| "getProperty v k = None"

section \<open>Errors, effects and the environment\<close>

text \<open>
  The failures of the program, by the kind the specification gives them. In the source:
  \<open>MalformedArgument arg\<close> is \<open>Error('invalid arg: ' + arg)\<close>; \<open>InvalidJson\<close> is the
  \<open>SyntaxError\<close> of \<open>JSON.parse\<close>; \<open>NotConfigured\<close> is \<open>Error('no server to connect to!')\<close>;
  \<open>NotAuthenticated\<close> is \<open>Error('no token available')\<close>; \<open>MissingCommandName\<close> is
  \<open>Error('missing command name')\<close>; \<open>LocalFileNotFound\<close> is the rejection of \<open>stat\<close>;
  \<open>TransferFailed\<close> is a stream or HTTP failure; \<open>TypeError\<close> is what Node raises when
  \<open>url.resolve\<close>, \<open>createWriteStream\<close> or \<open>stat\<close> is handed a value that is not a string;
  \<open>ConnectionFailed\<close>, \<open>AuthenticationFailed\<close> and \<open>RemoteError\<close> come from the transport.
\<close>

datatype error =
    MalformedArgument string
  | InvalidJson
  | NotConfigured
  | NotAuthenticated
  | ConnectionFailed
  | AuthenticationFailed
  | RemoteError
  | LocalFileNotFound
  | TransferFailed
  | MissingCommandName
  | TypeError

text \<open>What the program does to the outside world, in the order it does it.\<close>

datatype event =
    XoNew json
  | XoOpen json
  | XoSignIn json
  | XoCall string "(string \<times> json) list"
  | CreateWriteStream string
  | HttpGet string
  | Stat string
  | CreateReadStream string
  | HttpPost string nat string

text \<open>
  What a call resolves to: the RPC result itself, the body of the upload's HTTP response,
  or nothing (\<open>undefined\<close>, the value of the download's \<open>finish\<close> event).
\<close>

datatype answer = Result json | ResponseBody string | Finished

record credentials =
  server :: "json option"
  token :: "json option"

text \<open>
  The collaborators the source calls and does not define: the configuration store
  (\<open>./config\<close>), the \<open>xo-lib\<close> transport, the file system, the HTTP client, Node's
  \<open>url.resolve\<close> and \<open>JSON.parse\<close>.
  \<^item> \<open>config_load\<close>: what \<open>config.load()\<close> resolves to;
  \<^item> \<open>xo_url s\<close>: the \<open>_url\<close> property of the \<open>Xo\<close> instance made for server \<open>s\<close>;
  \<open>xo_open s\<close> and \<open>xo_signIn s t\<close>: the failure of \<open>xo.open()\<close> and \<open>xo.signIn\<close>, if any;
  \<open>xo_call m ps\<close>: the outcome of \<open>xo.call(m, ps)\<close>;
  \<^item> \<open>stat p\<close>: the size of the file at \<open>p\<close>, \<open>None\<close> when there is no such file;
  \<^item> \<open>http_get u\<close>: whether the download pipeline from \<open>u\<close> reaches \<open>finish\<close>;
  \<open>http_post u n p\<close>: the response body of the POST to \<open>u\<close> with \<open>content-length\<close> \<open>n\<close> and
  the file at \<open>p\<close> as body, \<open>None\<close> when the request fails;
  \<^item> \<open>resolveUrl\<close>: \<open>url.resolve\<close> on two strings; \<open>JSON_parse\<close>: \<open>None\<close> on a syntax error.
\<close>

record env =
  config_load :: "error + credentials"
  xo_url :: "json \<Rightarrow> string"
  xo_open :: "json \<Rightarrow> error option"
  xo_signIn :: "json \<Rightarrow> json \<Rightarrow> error option"
  xo_call :: "string \<Rightarrow> (string \<times> json) list \<Rightarrow> error + json"
  stat :: "string \<Rightarrow> nat option"
  http_get :: "string \<Rightarrow> bool"
  http_post :: "string \<Rightarrow> nat \<Rightarrow> string \<Rightarrow> string option"
  resolveUrl :: "string \<Rightarrow> string \<Rightarrow> string"
  JSON_parse :: "string \<Rightarrow> json option"

type_synonym 'a outcome = "event list \<times> (error + 'a)"

section \<open>The transfer dispatcher\<close>

text \<open>
  \<open>handleResult\<close>, the callback of \<open>call\<close> (part_000 lines 297-351, index.js lines
  270-314), with its two closure variables \<open>baseUrl\<close> and \<open>file\<close> as arguments. The two
  files differ only in the HTTP client they hand the same request to (\<open>got.stream\<close> and
  \<open>got.post\<close> against \<open>got\<close> and \<open>sent\<close>), so one definition stands for both. Node raises a
  \<open>TypeError\<close> when \<open>url.resolve\<close> is given a sentinel value that is not a string, and when
  \<open>createWriteStream\<close> or \<open>stat\<close> is given a \<open>file\<close> that is not one (\<open>undefined\<close> when no \<open>@\<close>
  parameter was given). The progress lines printed once a second while a stream runs
  are not part of the model.
\<close>

definition handleResult :: "env \<Rightarrow> string \<Rightarrow> json option \<Rightarrow> json \<Rightarrow> answer outcome" where
  "handleResult E baseUrl file result =
     (if isObject result then
        (case getKeys result of
           [key] \<Rightarrow>
             if key = ''$getFrom'' then
               (case getProperty result key of
                  Some (JStr rel) \<Rightarrow>
                    (case file of
                       Some (JStr p) \<Rightarrow>
                         ([CreateWriteStream p, HttpGet (resolveUrl E baseUrl rel)],
                          if http_get E (resolveUrl E baseUrl rel) then Inr Finished
                          else Inl TransferFailed)
                     | _ \<Rightarrow> ([], Inl TypeError))
                | _ \<Rightarrow> ([], Inl TypeError))
             else if key = ''$sendTo'' then
               (case getProperty result key of
                  Some (JStr rel) \<Rightarrow>
                    (case file of
                       Some (JStr p) \<Rightarrow>
                         (case stat E p of
                            None \<Rightarrow> ([Stat p], Inl LocalFileNotFound)
                          | Some n \<Rightarrow>
                              ([Stat p, CreateReadStream p,
                                HttpPost (resolveUrl E baseUrl rel) n p],
                               case http_post E (resolveUrl E baseUrl rel) n p of
                                 None \<Rightarrow> Inl TransferFailed
                               | Some body \<Rightarrow> Inr (ResponseBody body)))
                     | _ \<Rightarrow> ([], Inl TypeError))
                | _ \<Rightarrow> ([], Inl TypeError))
             else ([], Inr (Result result))
         | _ \<Rightarrow> ([], Inr (Result result)))
      else ([], Inr (Result result)))"

section \<open>The parameter parser\<close>

text \<open>
  The split both parameter patterns share: the name is the longest prefix free of \<open>=\<close>
  (the greedy \<open>[^=]+\<close>, which cannot give a character back since the next one must be
  \<open>=\<close>), it must not be empty, an \<open>=\<close> must follow, and the rest is the value.
\<close>

definition split_name_value :: "string \<Rightarrow> (string \<times> string) option" where
  "split_name_value arg =
     (case dropWhile (\<lambda>c. c \<noteq> CHR ''='') arg of
        [] \<Rightarrow> None
      | eq # val \<Rightarrow>
          if takeWhile (\<lambda>c. c \<noteq> CHR ''='') arg = [] then None
          else Some (takeWhile (\<lambda>c. c \<noteq> CHR ''='') arg, val))"

text \<open>
  part_000 line 60: \<open>PARAM_RE = /^([^=]+)=([^]*)$/\<close>. \<open>[^]\<close> matches every character and
  \<open>$\<close> (no \<open>m\<close> flag) only the end of the input, so the value is the whole rest.
  \<open>arg.match(PARAM_RE)\<close> is \<open>None\<close> for \<open>null\<close>, and the two groups otherwise.
\<close>

definition PARAM_RE :: "string \<Rightarrow> (string \<times> string) option" where
  "PARAM_RE arg = split_name_value arg"

text \<open>
  index.js line 254: \<open>PARAM_RE = /^([^=]+)=(.*)$/\<close>. The dot matches every character but
  the line terminators: line feed, carriage return, U+2028 and U+2029 (in UTF-8 the
  bytes E2 80 A8 and E2 80 A9). The value must reach the end of the input, so the
  pattern matches only when the rest holds no line terminator.
\<close>

fun has_line_terminator :: "string \<Rightarrow> bool" where
  "has_line_terminator [] = False"
| "has_line_terminator (c # cs) =
     (c = CHR 0x0A \<or> c = CHR 0x0D
      \<or> (c = CHR 0xE2 \<and> (take 2 cs = [CHR 0x80, CHR 0xA8] \<or> take 2 cs = [CHR 0x80, CHR 0xA9]))
      \<or> has_line_terminator cs)"

definition PARAM_RE_idx :: "string \<Rightarrow> (string \<times> string) option" where
  "PARAM_RE_idx arg =
     (case split_name_value arg of
        None \<Rightarrow> None
      | Some (name, val) \<Rightarrow> if has_line_terminator val then None else Some (name, val))"

text \<open>part_000 lines 56-58: \<open>string.lastIndexOf(search, 0) === 0\<close>.\<close>

definition startsWith :: "string \<Rightarrow> string \<Rightarrow> bool" where
  "startsWith s search = (take (length search) s = search)"

text \<open>
  The object \<open>params = {}\<close>. It has its own properties and a prototype, which starts as
  \<open>Object.prototype\<close>. An assignment \<open>params[name] = v\<close> makes or updates an own property,
  except for the name \<open>__proto__\<close>: while the accessor of \<open>Object.prototype\<close> is what the
  lookup of that name finds, the assignment runs its setter, which replaces the
  prototype when \<open>v\<close> is an object (or array) or \<open>null\<close> and does nothing for any other
  value. The accessor is not found once the prototype is \<open>null\<close>, or once \<open>params\<close> or the
  object that became its prototype has an own data property of that name (\<open>JSON.parse\<close>
  makes one for the key \<open>__proto__\<close>). The enumeration order is the insertion order
  (JavaScript lists index-like names first; nothing here depends on the order).
\<close>

datatype prototype = ObjectPrototype | NullPrototype | ValuePrototype json

record params =
  own :: "(string \<times> json) list"
  proto :: prototype

definition proto_setter_found :: "params \<Rightarrow> bool" where
  "proto_setter_found P =
     (''__proto__'' \<notin> set (map fst (own P)) \<and>
      (case proto P of
         ObjectPrototype \<Rightarrow> True
       | NullPrototype \<Rightarrow> False
       | ValuePrototype (JObj kvs) \<Rightarrow> ''__proto__'' \<notin> set (map fst kvs)
       | ValuePrototype v \<Rightarrow> True))"

definition setProperty :: "params \<Rightarrow> string \<Rightarrow> json \<Rightarrow> params" where
  "setProperty P name v =
     (if name = ''__proto__'' \<and> proto_setter_found P then
        (if isObject v then P\<lparr>proto := ValuePrototype v\<rparr>
         else if v = JNull then P\<lparr>proto := NullPrototype\<rparr>
         else P)
      else P\<lparr>own := AList.update name v (own P)\<rparr>)"

text \<open>
  \<open>params[name]\<close> for a name that \<open>Object.prototype\<close> and \<open>Array.prototype\<close> do not define
  (the program reads \<open>@\<close> only): the own property, or else the prototype's.
\<close>

definition getParam :: "params \<Rightarrow> string \<Rightarrow> json option" where
  "getParam P name =
     (case map_of (own P) name of
        Some v \<Rightarrow> Some v
      | None \<Rightarrow> (case proto P of ValuePrototype v \<Rightarrow> getProperty v name | _ \<Rightarrow> None))"

text \<open>\<open>delete params[name]\<close> removes an own property and nothing else.\<close>

definition deleteProperty :: "params \<Rightarrow> string \<Rightarrow> params" where
  "deleteProperty P name = P\<lparr>own := AList.delete name (own P)\<rparr>"

definition empty_params :: params where
  "empty_params = \<lparr>own = [], proto = ObjectPrototype\<rparr>"

text \<open>
  \<open>forEach(args, function (arg) { ... })\<close>: the callback runs on each token in order and
  updates \<open>params\<close>; a \<open>throw\<close> ends the loop and the function. (The callback never
  returns \<open>false\<close>, which is what would make lodash stop early.)
\<close>

fun forEach_args :: "(params \<Rightarrow> string \<Rightarrow> error + params) \<Rightarrow> params \<Rightarrow> string list \<Rightarrow> error + params" where
  "forEach_args f P [] = Inr P"
| "forEach_args f P (arg # args) =
     (case f P arg of Inl e \<Rightarrow> Inl e | Inr P' \<Rightarrow> forEach_args f P' args)"

text \<open>
  The callback of part_000 lines 63-87; \<open>J\<close> is \<open>JSON.parse\<close>. The \<open>json:\<close> step comes
  first, the \<open>@\<close> test second, the \<open>true\<close>/\<open>false\<close> step last, each an \<open>if\<close> of its own.
\<close>

definition parseParameter :: "(string \<Rightarrow> json option) \<Rightarrow> params \<Rightarrow> string \<Rightarrow> error + params" where
  "parseParameter J P arg =
     (case PARAM_RE arg of
        None \<Rightarrow> Inl (MalformedArgument arg)
      | Some (name, val) \<Rightarrow>
          (case (if startsWith val ''json:'' then J (drop 5 val) else Some (JStr val)) of
             None \<Rightarrow> Inl InvalidJson
           | Some v \<Rightarrow>
               if name = ''@'' then Inr (setProperty P ''@'' v)
               else if v = JStr ''true'' then Inr (setProperty P name (JBool True))
               else if v = JStr ''false'' then Inr (setProperty P name (JBool False))
               else Inr (setProperty P name v)))"

definition parseParameters :: "(string \<Rightarrow> json option) \<Rightarrow> string list \<Rightarrow> error + params" where
  "parseParameters J args = forEach_args (parseParameter J) empty_params args"

text \<open>The callback of index.js lines 60-81: no \<open>json:\<close> step.\<close>

definition parseParameter_idx :: "params \<Rightarrow> string \<Rightarrow> error + params" where
  "parseParameter_idx P arg =
     (case PARAM_RE_idx arg of
        None \<Rightarrow> Inl (MalformedArgument arg)
      | Some (name, val) \<Rightarrow>
          if name = ''@'' then Inr (setProperty P ''@'' (JStr val))
          else if val = ''true'' then Inr (setProperty P name (JBool True))
          else if val = ''false'' then Inr (setProperty P name (JBool False))
          else Inr (setProperty P name (JStr val)))"

definition parseParameters_idx :: "string list \<Rightarrow> error + params" where
  "parseParameters_idx args = forEach_args parseParameter_idx empty_params args"

section \<open>The session bootstrapper\<close>

text \<open>
  part_000 lines 36-54. \<open>!config.server\<close> holds when the field is missing and when its
  value is falsy. The session is represented by the server value it was made for.
\<close>

definition connect :: "env \<Rightarrow> json outcome" where
  "connect E =
     (case config_load E of
        Inl e \<Rightarrow> ([], Inl e)
      | Inr config \<Rightarrow>
          (case server config of
             None \<Rightarrow> ([], Inl NotConfigured)
           | Some s \<Rightarrow>
               if \<not> truthy s then ([], Inl NotConfigured)
               else
                 (case token config of
                    None \<Rightarrow> ([], Inl NotAuthenticated)
                  | Some t \<Rightarrow>
                      if \<not> truthy t then ([], Inl NotAuthenticated)
                      else
                        (case xo_open E s of
                           Some e \<Rightarrow> ([XoNew s, XoOpen s], Inl e)
                         | None \<Rightarrow>
                             (case xo_signIn E s t of
                                Some e \<Rightarrow> ([XoNew s, XoOpen s, XoSignIn t], Inl e)
                              | None \<Rightarrow> ([XoNew s, XoOpen s, XoSignIn t], Inr s))))))"

text \<open>
  index.js lines 38-56: the same two checks, then \<open>new Xo(config.server)\<close> and the sign-in
  as the remote call \<open>session.signInWithToken\<close>.
\<close>

definition connect_idx :: "env \<Rightarrow> json outcome" where
  "connect_idx E =
     (case config_load E of
        Inl e \<Rightarrow> ([], Inl e)
      | Inr config \<Rightarrow>
          (case server config of
             None \<Rightarrow> ([], Inl NotConfigured)
           | Some s \<Rightarrow>
               if \<not> truthy s then ([], Inl NotConfigured)
               else
                 (case token config of
                    None \<Rightarrow> ([], Inl NotAuthenticated)
                  | Some t \<Rightarrow>
                      if \<not> truthy t then ([], Inl NotAuthenticated)
                      else
                        (case xo_call E ''session.signInWithToken'' [(''token'', t)] of
                           Inl e \<Rightarrow>
                             ([XoNew s, XoCall ''session.signInWithToken'' [(''token'', t)]], Inl e)
                         | Inr r \<Rightarrow>
                             ([XoNew s, XoCall ''session.signInWithToken'' [(''token'', t)]], Inr s)))))"

section \<open>The method invoker\<close>

text \<open>part_000 line 294: \<open>xo._url.replace(/^ws/, 'http')\<close>.\<close>

definition replace_ws :: "string \<Rightarrow> string" where
  "replace_ws url = (if take 2 url = ''ws'' then ''http'' @ drop 2 url else url)"

text \<open>
  part_000 lines 280-353. What goes over the wire as the parameters of the remote call
  are the own properties of \<open>params\<close> after \<open>delete params['@']\<close>.
\<close>

definition call :: "env \<Rightarrow> string list \<Rightarrow> answer outcome" where
  "call E args =
     (case args of
        [] \<Rightarrow> ([], Inl MissingCommandName)
      | method # rest \<Rightarrow>
          (case parseParameters (JSON_parse E) rest of
             Inl e \<Rightarrow> ([], Inl e)
           | Inr params \<Rightarrow>
               (case connect E of
                  (evs, Inl e) \<Rightarrow> (evs, Inl e)
                | (evs, Inr xo) \<Rightarrow>
                    (case xo_call E method (own (deleteProperty params ''@'')) of
                       Inl e \<Rightarrow> (evs @ [XoCall method (own (deleteProperty params ''@''))], Inl e)
                     | Inr result \<Rightarrow>
                         (case handleResult E (replace_ws (xo_url E xo)) (getParam params ''@'') result of
                            (evs', r) \<Rightarrow>
                              (evs @ [XoCall method (own (deleteProperty params ''@''))] @ evs', r))))))"

text \<open>index.js lines 255-316: \<open>baseUrl = xo._url\<close>, as it is.\<close>

definition call_idx :: "env \<Rightarrow> string list \<Rightarrow> answer outcome" where
  "call_idx E args =
     (case args of
        [] \<Rightarrow> ([], Inl MissingCommandName)
      | method # rest \<Rightarrow>
          (case parseParameters_idx rest of
             Inl e \<Rightarrow> ([], Inl e)
           | Inr params \<Rightarrow>
               (case connect_idx E of
                  (evs, Inl e) \<Rightarrow> (evs, Inl e)
                | (evs, Inr xo) \<Rightarrow>
                    (case xo_call E method (own (deleteProperty params ''@'')) of
                       Inl e \<Rightarrow> (evs @ [XoCall method (own (deleteProperty params ''@''))], Inl e)
                     | Inr result \<Rightarrow>
                         (case handleResult E (xo_url E xo) (getParam params ''@'') result of
                            (evs', r) \<Rightarrow>
                              (evs @ [XoCall method (own (deleteProperty params ''@''))] @ evs', r))))))"

section \<open>The command-line dispatch\<close>

text \<open>
  part_000 lines 158-175 and index.js lines 142-160, the same text in both files.
  \<open>\w\<close> is a letter, a digit or the underscore; \<open>toUpperCase\<close> of such a character changes
  the lower-case letters only.
\<close>

definition word_char :: "char \<Rightarrow> bool" where
  "word_char c =
     (c \<in> set ''abcdefghijklmnopqrstuvwxyzABCDEFGHIJKLMNOPQRSTUVWXYZ0123456789_'')"

definition toUpperCase :: "char \<Rightarrow> char" where
  "toUpperCase c =
     (case map_of (zip ''abcdefghijklmnopqrstuvwxyz'' ''ABCDEFGHIJKLMNOPQRSTUVWXYZ'') c of
        Some u \<Rightarrow> u
      | None \<Rightarrow> c)"

text \<open>
  The matches of \<open>-\w\<close>, left to right, each replaced by the upper-cased second character;
  a dash that no word character follows stays, and the scan goes on behind it.
\<close>

fun replace_dash_word :: "string \<Rightarrow> string" where
  "replace_dash_word [] = []"
| "replace_dash_word [c] = [c]"
| "replace_dash_word (c # d # cs) =
     (if c = CHR ''-'' \<and> word_char d then toUpperCase d # replace_dash_word cs
      else c # replace_dash_word (d # cs))"

text \<open>
  \<open>args[0].replace(/^--|-\w/g, ...)\<close>: at the start of the token the first alternative is
  tried first, so a leading \<open>--\<close> is removed; everywhere else only \<open>-\w\<close> can match.
\<close>

definition fnName :: "string \<Rightarrow> string" where
  "fnName arg =
     (if take 2 arg = ''--'' then replace_dash_word (drop 2 arg) else replace_dash_word arg)"

text \<open>
  The operations the module exports (\<open>exports.help = help\<close> and so on), and the other
  names for which \<open>fnName in exports\<close> holds because \<open>exports\<close> is the function \<open>main\<close>: its
  own \<open>length\<close>, \<open>name\<close> and \<open>prototype\<close>, and what it inherits from \<open>Function.prototype\<close>
  and \<open>Object.prototype\<close>.
\<close>

definition local_operations :: "string list" where
  "local_operations =
     [''help'', ''register'', ''unregister'', ''listCommands'', ''listObjects'', ''call'']"

definition function_properties :: "string list" where
  "function_properties =
     [''length'', ''name'', ''prototype'', ''arguments'', ''caller'',
      ''apply'', ''bind'', ''constructor'', ''toString'',
      ''hasOwnProperty'', ''isPrototypeOf'', ''propertyIsEnumerable'', ''toLocaleString'',
      ''valueOf'', ''__proto__'', ''__defineGetter__'', ''__defineSetter__'',
      ''__lookupGetter__'', ''__lookupSetter__'']"

text \<open>
  What \<open>main\<close> does is to apply one property of \<open>exports\<close> to a list of arguments:
  \<open>Invoke f as\<close> is the call \<open>exports[f](as)\<close>. \<open>args\<close> is \<open>None\<close> when \<open>main\<close> is called
  without an argument list. \<open>help()\<close> is called with no argument.
\<close>

datatype invocation = Invoke string "string list"

definition main :: "string list option \<Rightarrow> invocation" where
  "main args =
     (case args of
        None \<Rightarrow> Invoke ''help'' []
      | Some [] \<Rightarrow> Invoke ''help'' []
      | Some (arg # rest) \<Rightarrow>
          if arg = ''-h'' then Invoke ''help'' []
          else if fnName arg \<in> set (local_operations @ function_properties)
          then Invoke (fnName arg) rest
          else Invoke ''call'' (arg # rest))"

section \<open>The progress reporter\<close>

text \<open>
  part_000 lines 97-111 and index.js lines 86-100. A sample is the object
  \<open>progress-stream\<close> hands to the callback; each field is a JavaScript value or
  \<open>undefined\<close>. The renderers are libraries: \<open>Math_round\<close>, \<open>humanFormat\<close> (with the options
  of the file: binary scale and unit \<open>B\<close> in part_000, the defaults in index.js) and
  \<open>prettyMs_1e3 x\<close>, which is \<open>prettyMs(x * 1e3)\<close>. The result is the call of \<open>console.warn\<close>:
  the format string and the rendered arguments.
\<close>

record progress =
  percentage :: "json option"
  transferred :: "json option"
  length_total :: "json option"
  speed :: "json option"
  eta :: "json option"

record renderers =
  Math_round :: "json option \<Rightarrow> string"
  humanFormat :: "json option \<Rightarrow> string"
  prettyMs_1e3 :: "json option \<Rightarrow> string"

definition printProgress :: "renderers \<Rightarrow> progress \<Rightarrow> string \<times> string list" where
  "printProgress R p =
     (if truthy_opt (length_total p) then
        (''%s% of %s @ %s/s - ETA %s'',
         [Math_round R (percentage p), humanFormat R (length_total p),
          humanFormat R (speed p), prettyMs_1e3 R (eta p)])
      else
        (''%s @ %s/s'', [humanFormat R (transferred p), humanFormat R (speed p)]))"

section \<open>Re-serialising a parameter\<close>

text \<open>
  The specification's \<open>name + "=" + stringify(value)\<close> for the string and boolean cases:
  a string is written as it is and a boolean as \<open>true\<close> or \<open>false\<close>. No such function is in
  the source; this one follows the words of the specification, and is \<open>None\<close> on the
  values those words do not cover.
\<close>

fun spec_stringify :: "json \<Rightarrow> string option" where
  "spec_stringify (JStr s) = Some s"
| "spec_stringify (JBool b) = Some (if b then ''true'' else ''false'')"
| "spec_stringify v = None"

definition spec_reserialize :: "string \<Rightarrow> json \<Rightarrow> string option" where
  "spec_reserialize name v = map_option (\<lambda>s. name @ ''='' @ s) (spec_stringify v)"

text \<open>
  The specification's re-serialisation of a \<open>json:\<close> value, \<open>S\<close> being \<open>JSON.stringify\<close>.
\<close>

definition spec_reserialize_json :: "(json \<Rightarrow> string) \<Rightarrow> string \<Rightarrow> json \<Rightarrow> string" where
  "spec_reserialize_json S name v = name @ ''=json:'' @ S v"

section \<open>A sample environment\<close>

text \<open>
  The values \<open>JSON.parse\<close> gives on the well-formed texts of the concrete instances; the
  only other text it is asked for there is the malformed \<open>{\<close>, a syntax error.
\<close>

definition sample_JSON_parse :: "string \<Rightarrow> json option" where
  "sample_JSON_parse s =
     map_of
       [(''{\"a\":1}'', JObj [(''a'', JNum 1)]),
        (''{ \"a\" : 1 }'', JObj [(''a'', JNum 1)]),
        (''\"true\"'', JStr ''true''),
        (''true'', JBool True),
        (''\"a.iso\"'', JStr ''a.iso''),
        (''[1,2]'', JArr [JNum 1, JNum 2])] s"

text \<open>The texts \<open>JSON.stringify\<close> gives for the values of the concrete instances.\<close>

definition sample_JSON_stringify :: "json \<Rightarrow> string" where
  "sample_JSON_stringify v =
     (if v = JObj [(''a'', JNum 1)] then ''{\"a\":1}''
      else if v = JBool True then ''true''
      else if v = JStr ''a.iso'' then ''\"a.iso\"''
      else ''null'')"

text \<open>
  An environment for the concrete instances below: the given credentials, a transport
  that opens and signs in, whose \<open>_url\<close> is the web-socket form of the server URL with
  \<open>/api/\<close> appended and whose every call returns \<open>result\<close>, a file system with the one file
  \<open>disk.vhd\<close> of 1048576 bytes, an HTTP server that answers every request (\<open>done\<close> to a
  POST), and \<open>r\<close> for \<open>url.resolve\<close>.
\<close>

definition sample_env :: "credentials \<Rightarrow> (string \<Rightarrow> string \<Rightarrow> string) \<Rightarrow> json \<Rightarrow> env" where
  "sample_env config r result =
     \<lparr>config_load = Inr config,
      xo_url = (\<lambda>s. case s of JStr u \<Rightarrow> ''ws'' @ drop 4 u @ ''/api/'' | _ \<Rightarrow> []),
      xo_open = (\<lambda>s. None),
      xo_signIn = (\<lambda>s t. None),
      xo_call = (\<lambda>m ps. Inr result),
      stat = (\<lambda>p. if p = ''disk.vhd'' then Some 1048576 else None),
      http_get = (\<lambda>u. True),
      http_post = (\<lambda>u n p. Some ''done''),
      resolveUrl = r,
      JSON_parse = sample_JSON_parse\<rparr>"

text \<open>
  The values \<open>url.resolve\<close> gives on the two instances it is asked for below: a path that
  starts with \<open>/\<close> replaces the path of the base and keeps its scheme and host.
\<close>

definition sample_resolveUrl :: "string \<Rightarrow> string \<Rightarrow> string" where
  "sample_resolveUrl base rel =
     (if base = ''ws://h/api/'' \<and> rel = ''/files/abc'' then ''ws://h/files/abc''
      else if base = ''http://h/api/'' \<and> rel = ''/files/abc'' then ''http://h/files/abc''
      else rel)"

text \<open>
  The sample environment with a server registered as \<open>http://h\<close>, whose session URL is
  therefore \<open>ws://h/api/\<close>, a remote call answered by the download sentinel
  \<open>/files/abc\<close>, and an HTTP client that, like \<open>got\<close> and \<open>sent\<close>, serves \<open>http\<close> and \<open>https\<close>
  URLs and refuses every other protocol.
\<close>

definition http_only_env :: env where
  "http_only_env =
     (sample_env \<lparr>server = Some (JStr ''http://h''), token = Some (JStr ''t0k'')\<rparr>
        sample_resolveUrl (JObj [(''$getFrom'', JStr ''/files/abc'')]))
       \<lparr>http_get := (\<lambda>u. take 7 u = ''http://'' \<or> take 8 u = ''https://'')\<rparr>"

section \<open>Properties of the transfer dispatcher\<close>

lemma getKeys_array_singleton:
  "getKeys (JArr xs) = [key] \<Longrightarrow> key = ''0''"
proof -
  assume a: "getKeys (JArr xs) = [key]"
  then have "length xs = 1"
    by (metis diff_zero getKeys.simps(2) length_Cons length_map length_upt list.size(3) One_nat_def)
  with a show ?thesis
    by (simp add: string_of_nat.simps)
qed

text \<open>
  X3. Every RPC result is the one-property object \<open>{$getFrom: v}\<close> or \<open>{$sendTo: v}\<close>, or
  is passed through unchanged with no effect: in particular no array starts a transfer,
  since the one key of a one-element array is \<open>0\<close>.
\<close>

lemma handleResult_transfer_shape:
  "(\<exists>v. result = JObj [(''$getFrom'', v)] \<or> result = JObj [(''$sendTo'', v)])
   \<or> handleResult E baseUrl file result = ([], Inr (Result result))"
proof (cases result)
  case (JObj kvs)
  show ?thesis
  proof (cases kvs)
    case Nil
    with JObj show ?thesis by (simp add: handleResult_def)
  next
    case (Cons kv rest)
    obtain k v where kv: "kv = (k, v)" by (cases kv)
    show ?thesis
    proof (cases rest)
      case Nil
      with JObj Cons kv show ?thesis by (simp add: handleResult_def)
    next
      case (Cons kv2 rest2)
      with JObj \<open>kvs = kv # rest\<close> show ?thesis by (simp add: handleResult_def)
    qed
  qed
next
  case (JArr xs)
  have "handleResult E baseUrl file (JArr xs) = ([], Inr (Result (JArr xs)))"
  proof (cases "getKeys (JArr xs)")
    case Nil
    then show ?thesis by (simp add: handleResult_def)
  next
    case (Cons key ks)
    show ?thesis
    proof (cases ks)
      case Nil
      with Cons have "key = ''0''" by (simp add: getKeys_array_singleton)
      with Cons Nil show ?thesis by (simp add: handleResult_def)
    next
      case (Cons k2 ks2)
      with \<open>getKeys (JArr xs) = key # ks\<close> show ?thesis by (simp add: handleResult_def)
    qed
  qed
  with JArr show ?thesis by simp
qed (simp_all add: handleResult_def)

text \<open>
  C1. For every RPC result value, the dispatcher returns the result unchanged and does
  nothing else (no event: no file is opened, no request is made), unless the value is an
  object with exactly one key and that key is \<open>$getFrom\<close> or \<open>$sendTo\<close>. So a value that
  is not an object, an object with no key or with two or more keys, and an object whose
  single key is neither sentinel are all passed through verbatim.
\<close>

theorem handleResult_pass_through:
  assumes "\<not> (isObject result \<and> (getKeys result = [''$getFrom''] \<or> getKeys result = [''$sendTo'']))"
  shows "handleResult E baseUrl file result = ([], Inr (Result result))"
  using assms by (auto simp: handleResult_def split: list.splits)

text \<open>
  The instances of C1 at the object \<open>{other: 1}\<close> of the specification, a string, the
  empty object, an object holding both sentinel keys, and a one-element array.
\<close>

theorem handleResult_pass_through_witness:
  "\<forall>E baseUrl file.
     handleResult E baseUrl file (JObj [(''other'', JNum 1)]) = ([], Inr (Result (JObj [(''other'', JNum 1)])))
   \<and> handleResult E baseUrl file (JStr ''$getFrom'') = ([], Inr (Result (JStr ''$getFrom'')))
   \<and> handleResult E baseUrl file (JObj []) = ([], Inr (Result (JObj [])))
   \<and> handleResult E baseUrl file (JObj [(''$getFrom'', JStr ''/a''), (''$sendTo'', JStr ''/b'')])
       = ([], Inr (Result (JObj [(''$getFrom'', JStr ''/a''), (''$sendTo'', JStr ''/b'')])))
   \<and> handleResult E baseUrl file (JArr [JStr ''$sendTo'']) = ([], Inr (Result (JArr [JStr ''$sendTo''])))"
proof (intro allI conjI)
  fix E baseUrl f
  show "handleResult E baseUrl f (JObj [(''other'', JNum 1)]) = ([], Inr (Result (JObj [(''other'', JNum 1)])))"
    by (rule handleResult_pass_through) simp
  show "handleResult E baseUrl f (JStr ''$getFrom'') = ([], Inr (Result (JStr ''$getFrom'')))"
    by (rule handleResult_pass_through) simp
  show "handleResult E baseUrl f (JObj []) = ([], Inr (Result (JObj [])))"
    by (rule handleResult_pass_through) simp
  show "handleResult E baseUrl f (JObj [(''$getFrom'', JStr ''/a''), (''$sendTo'', JStr ''/b'')])
       = ([], Inr (Result (JObj [(''$getFrom'', JStr ''/a''), (''$sendTo'', JStr ''/b'')])))"
    by (rule handleResult_pass_through) simp
  show "handleResult E baseUrl f (JArr [JStr ''$sendTo'']) = ([], Inr (Result (JArr [JStr ''$sendTo''])))"
    by (rule handleResult_pass_through) (simp add: string_of_nat.simps)
qed

text \<open>
  C2. When the dispatcher receives the single-key object \<open>{$sendTo: rel}\<close> and the local
  file path \<open>p\<close>: if the file does not exist, the call fails with \<open>LocalFileNotFound\<close> and
  the only thing done was the \<open>stat\<close> (no network request); if the file exists with size
  \<open>n\<close>, the dispatcher stats it, opens it for reading and issues one HTTP POST to the
  resolved URL with \<open>content-length\<close> \<open>n\<close>, and the output of the call is the body of the
  response to that POST.
\<close>

theorem handleResult_sendTo:
  "(stat E p = None \<longrightarrow>
      handleResult E baseUrl (Some (JStr p)) (JObj [(''$sendTo'', JStr rel)])
        = ([Stat p], Inl LocalFileNotFound))
   \<and> (stat E p = Some n \<longrightarrow>
      fst (handleResult E baseUrl (Some (JStr p)) (JObj [(''$sendTo'', JStr rel)]))
        = [Stat p, CreateReadStream p, HttpPost (resolveUrl E baseUrl rel) n p]
      \<and> (\<forall>body. http_post E (resolveUrl E baseUrl rel) n p = Some body \<longrightarrow>
            snd (handleResult E baseUrl (Some (JStr p)) (JObj [(''$sendTo'', JStr rel)]))
              = Inr (ResponseBody body)))"
  by (simp add: handleResult_def)

text \<open>
  The instance of C2 in the sample environment, at the missing file \<open>missing.vhd\<close> and at
  the file \<open>disk.vhd\<close> of 1048576 bytes.
\<close>

theorem handleResult_sendTo_witness:
  "\<forall>config r result.
     stat (sample_env config r result) ''missing.vhd'' = None
   \<and> handleResult (sample_env config r result) ''http://h/'' (Some (JStr ''missing.vhd''))
        (JObj [(''$sendTo'', JStr ''/upload/1'')]) = ([Stat ''missing.vhd''], Inl LocalFileNotFound)
   \<and> stat (sample_env config r result) ''disk.vhd'' = Some 1048576
   \<and> handleResult (sample_env config r result) ''http://h/'' (Some (JStr ''disk.vhd''))
        (JObj [(''$sendTo'', JStr ''/upload/1'')])
      = ([Stat ''disk.vhd'', CreateReadStream ''disk.vhd'',
          HttpPost (r ''http://h/'' ''/upload/1'') 1048576 ''disk.vhd''],
         Inr (ResponseBody ''done''))"
proof (intro allI)
  fix config r result
  let ?E = "sample_env config r result"
  have s1: "stat ?E ''missing.vhd'' = None" by (simp add: sample_env_def)
  have s2: "stat ?E ''disk.vhd'' = Some 1048576" by (simp add: sample_env_def)
  have r: "resolveUrl ?E = r" by (simp add: sample_env_def)
  have p: "http_post ?E (r ''http://h/'' ''/upload/1'') 1048576 ''disk.vhd'' = Some ''done''"
    by (simp add: sample_env_def)
  from handleResult_sendTo [where E = ?E and p = "''missing.vhd''" and baseUrl = "''http://h/''" and rel = "''/upload/1''"] s1
  have a: "handleResult ?E ''http://h/'' (Some (JStr ''missing.vhd''))
        (JObj [(''$sendTo'', JStr ''/upload/1'')]) = ([Stat ''missing.vhd''], Inl LocalFileNotFound)"
    by blast
  from handleResult_sendTo [where E = ?E and p = "''disk.vhd''" and n = 1048576 and baseUrl = "''http://h/''" and rel = "''/upload/1''"] s2 p r
  have b: "handleResult ?E ''http://h/'' (Some (JStr ''disk.vhd''))
        (JObj [(''$sendTo'', JStr ''/upload/1'')])
      = ([Stat ''disk.vhd'', CreateReadStream ''disk.vhd'',
          HttpPost (r ''http://h/'' ''/upload/1'') 1048576 ''disk.vhd''],
         Inr (ResponseBody ''done''))"
    by (metis prod.collapse)
  from s1 a s2 b show "stat ?E ''missing.vhd'' = None
   \<and> handleResult ?E ''http://h/'' (Some (JStr ''missing.vhd''))
        (JObj [(''$sendTo'', JStr ''/upload/1'')]) = ([Stat ''missing.vhd''], Inl LocalFileNotFound)
   \<and> stat ?E ''disk.vhd'' = Some 1048576
   \<and> handleResult ?E ''http://h/'' (Some (JStr ''disk.vhd''))
        (JObj [(''$sendTo'', JStr ''/upload/1'')])
      = ([Stat ''disk.vhd'', CreateReadStream ''disk.vhd'',
          HttpPost (r ''http://h/'' ''/upload/1'') 1048576 ''disk.vhd''],
         Inr (ResponseBody ''done''))" by blast
qed


section \<open>Properties of the parameter parser\<close>

text \<open>
  The split succeeds exactly on the tokens \<open>name=value\<close> whose name is not empty and
  holds no \<open>=\<close>; the value is whatever follows the first \<open>=\<close>.
\<close>

lemma split_name_value_Some:
  "split_name_value arg = Some (name, val) \<longleftrightarrow>
     name \<noteq> [] \<and> CHR ''='' \<notin> set name \<and> arg = name @ CHR ''='' # val"
proof
  assume a: "split_name_value arg = Some (name, val)"
  let ?P = "\<lambda>c. c \<noteq> CHR ''=''"
  from a obtain eq where d: "dropWhile ?P arg = eq # val"
    and t: "takeWhile ?P arg = name" and ne: "name \<noteq> []"
    by (auto simp: split_name_value_def split: list.splits if_splits)
  from d have "eq = CHR ''=''"
    using hd_dropWhile [of ?P arg] by simp
  moreover have "arg = takeWhile ?P arg @ dropWhile ?P arg" by simp
  moreover from t have "CHR ''='' \<notin> set name"
    using set_takeWhileD [of "CHR ''=''" ?P arg] by auto
  ultimately show "name \<noteq> [] \<and> CHR ''='' \<notin> set name \<and> arg = name @ CHR ''='' # val"
    using d t ne by simp
next
  assume b: "name \<noteq> [] \<and> CHR ''='' \<notin> set name \<and> arg = name @ CHR ''='' # val"
  let ?P = "\<lambda>c. c \<noteq> CHR ''=''"
  from b have all: "\<forall>c \<in> set name. ?P c" by auto
  then have t: "takeWhile ?P arg = name"
    using b by (simp add: takeWhile_tail)
  from all have d: "dropWhile ?P arg = CHR ''='' # val"
    using b by (simp add: dropWhile_append3)
  from t d b show "split_name_value arg = Some (name, val)"
    by (simp add: split_name_value_def)
qed

lemma split_name_value_None:
  "split_name_value arg = None \<longleftrightarrow>
     \<not> (\<exists>name val. name \<noteq> [] \<and> CHR ''='' \<notin> set name \<and> arg = name @ CHR ''='' # val)"
proof (cases "split_name_value arg")
  case None
  then show ?thesis
    by (metis option.distinct(1) split_name_value_Some)
next
  case (Some nv)
  then show ?thesis
    by (cases nv) (metis option.distinct(1) split_name_value_Some)
qed

text \<open>
  X1. The pattern of part_000 accepts a token if and only if it is a non-empty name free
  of \<open>=\<close>, an \<open>=\<close>, and any value (empty, or holding any character, line feeds included).
\<close>

lemma PARAM_RE_accepts_iff:
  "PARAM_RE arg \<noteq> None \<longleftrightarrow>
     (\<exists>name val. name \<noteq> [] \<and> CHR ''='' \<notin> set name \<and> arg = name @ ''='' @ val)"
  using split_name_value_None [of arg] by (simp add: PARAM_RE_def)

text \<open>The callbacks raise \<open>MalformedArgument\<close> for exactly the tokens their pattern rejects.\<close>

lemma parseParameter_malformed_iff:
  "parseParameter J P arg = Inl (MalformedArgument arg) \<longleftrightarrow> PARAM_RE arg = None"
  by (auto simp: parseParameter_def split: option.splits)

lemma parseParameter_idx_malformed_iff:
  "parseParameter_idx P arg = Inl (MalformedArgument arg) \<longleftrightarrow> PARAM_RE_idx arg = None"
  by (auto simp: parseParameter_idx_def split: option.splits)

text \<open>The pattern of index.js also wants the value free of line terminators.\<close>

lemma PARAM_RE_idx_Some:
  "PARAM_RE_idx arg = Some (name, val) \<longleftrightarrow>
     name \<noteq> [] \<and> CHR ''='' \<notin> set name \<and> arg = name @ CHR ''='' # val \<and> \<not> has_line_terminator val"
proof (cases "split_name_value arg")
  case None
  then show ?thesis
    using split_name_value_Some [of arg name val] by (auto simp: PARAM_RE_idx_def)
next
  case (Some nv)
  obtain n v where nv: "nv = (n, v)" by (cases nv)
  with Some have s: "split_name_value arg = Some (n, v)" by simp
  then have eq: "arg = n @ CHR ''='' # v" and n: "CHR ''='' \<notin> set n"
    by (simp_all add: split_name_value_Some)
  show ?thesis
  proof
    assume "PARAM_RE_idx arg = Some (name, val)"
    with s have "n = name" "v = val" "\<not> has_line_terminator val"
      by (auto simp: PARAM_RE_idx_def split: if_splits)
    with s show "name \<noteq> [] \<and> CHR ''='' \<notin> set name \<and> arg = name @ CHR ''='' # val \<and> \<not> has_line_terminator val"
      by (simp add: split_name_value_Some)
  next
    assume r: "name \<noteq> [] \<and> CHR ''='' \<notin> set name \<and> arg = name @ CHR ''='' # val \<and> \<not> has_line_terminator val"
    then have "split_name_value arg = Some (name, val)"
      by (simp add: split_name_value_Some)
    with r show "PARAM_RE_idx arg = Some (name, val)"
      by (simp add: PARAM_RE_idx_def)
  qed
qed

text \<open>
  X5. The pattern of index.js accepts a token if and only if it is a non-empty name free
  of \<open>=\<close>, an \<open>=\<close>, and a value free of line terminators.
\<close>

lemma PARAM_RE_idx_accepts_iff:
  "PARAM_RE_idx arg \<noteq> None \<longleftrightarrow>
     (\<exists>name val. name \<noteq> [] \<and> CHR ''='' \<notin> set name \<and> arg = name @ ''='' @ val
                 \<and> \<not> has_line_terminator val)"
proof
  assume "PARAM_RE_idx arg \<noteq> None"
  then obtain name val where "PARAM_RE_idx arg = Some (name, val)" by auto
  then show "\<exists>name val. name \<noteq> [] \<and> CHR ''='' \<notin> set name \<and> arg = name @ ''='' @ val
                 \<and> \<not> has_line_terminator val"
    by (auto simp: PARAM_RE_idx_Some)
next
  assume "\<exists>name val. name \<noteq> [] \<and> CHR ''='' \<notin> set name \<and> arg = name @ ''='' @ val
                 \<and> \<not> has_line_terminator val"
  then obtain name val where "PARAM_RE_idx arg = Some (name, val)"
    by (auto simp: PARAM_RE_idx_Some)
  then show "PARAM_RE_idx arg \<noteq> None" by simp
qed

text \<open>
  C3. The parameter parser accepts a token if and only if it matches
  \<open>^([^=]+)=([^]*)$\<close>, the value being any characters at all, line feeds included. At the
  token \<open>note=a\nb\<close> (a line feed in the value) the pattern of part_000 matches and the
  parser of part_000 stores the value, and the pattern of index.js, whose value group is
  \<open>(.*)\<close>, does not match: the parser of index.js raises \<open>MalformedArgument\<close>.
\<close>

theorem parseParameters_idx_rejects_newline:
  "PARAM_RE (''note=a'' @ [CHR 0x0A] @ ''b'') = Some (''note'', ''a'' @ [CHR 0x0A] @ ''b'')
   \<and> (\<forall>J. parseParameters J [''note=a'' @ [CHR 0x0A] @ ''b'']
          = Inr \<lparr>own = [(''note'', JStr (''a'' @ [CHR 0x0A] @ ''b''))], proto = ObjectPrototype\<rparr>)
   \<and> PARAM_RE_idx (''note=a'' @ [CHR 0x0A] @ ''b'') = None
   \<and> parseParameters_idx [''note=a'' @ [CHR 0x0A] @ ''b'']
        = Inl (MalformedArgument (''note=a'' @ [CHR 0x0A] @ ''b''))"
  by (simp add: PARAM_RE_def PARAM_RE_idx_def split_name_value_def parseParameters_def
      parseParameters_idx_def parseParameter_def parseParameter_idx_def startsWith_def
      setProperty_def empty_params_def)


text \<open>Every well-formed token is matched, and split at its first \<open>=\<close>.\<close>

lemma PARAM_RE_token:
  "name \<noteq> [] \<Longrightarrow> CHR ''='' \<notin> set name \<Longrightarrow> PARAM_RE (name @ ''='' @ val) = Some (name, val)"
  by (simp add: PARAM_RE_def split_name_value_Some)

lemma PARAM_RE_idx_token:
  "name \<noteq> [] \<Longrightarrow> CHR ''='' \<notin> set name \<Longrightarrow> \<not> has_line_terminator val \<Longrightarrow>
   PARAM_RE_idx (name @ ''='' @ val) = Some (name, val)"
  by (simp add: PARAM_RE_idx_Some)

text \<open>On a single token the parser is its callback run on the empty object.\<close>

lemma parseParameters_single:
  "parseParameters J [arg] = parseParameter J empty_params arg"
  by (simp add: parseParameters_def split: sum.splits)

lemma parseParameters_idx_single:
  "parseParameters_idx [arg] = parseParameter_idx empty_params arg"
  by (simp add: parseParameters_idx_def split: sum.splits)

text \<open>
  C4 (as amended). For a matched token whose name is not \<open>@\<close>, the value is stored under
  the name after this post-processing. In part_000: a value prefixed with \<open>json:\<close> has the
  prefix stripped and the rest parsed as JSON, the call failing with \<open>InvalidJson\<close> when the
  rest is malformed, and the parsed value is what is stored when it is not the string
  \<open>true\<close> or \<open>false\<close>; a value that is literally \<open>true\<close> or \<open>false\<close> is stored as the boolean;
  any other value without the prefix is stored as the string it is. In index.js there is
  no \<open>json:\<close> step: \<open>true\<close> and \<open>false\<close> are stored as booleans and every other value, one
  prefixed with \<open>json:\<close> included, as the string it is. (Storing is \<open>params[name] = v\<close>.)
\<close>

theorem parseParameter_coercion:
  assumes "PARAM_RE arg = Some (name, val)" and "name \<noteq> ''@''"
  shows "(startsWith val ''json:'' \<and> J (drop 5 val) = None \<longrightarrow>
            parseParameter J P arg = Inl InvalidJson)
       \<and> (startsWith val ''json:'' \<and> J (drop 5 val) = Some v \<and> v \<noteq> JStr ''true'' \<and> v \<noteq> JStr ''false'' \<longrightarrow>
            parseParameter J P arg = Inr (setProperty P name v))
       \<and> (val = ''true'' \<longrightarrow> parseParameter J P arg = Inr (setProperty P name (JBool True)))
       \<and> (val = ''false'' \<longrightarrow> parseParameter J P arg = Inr (setProperty P name (JBool False)))
       \<and> (\<not> startsWith val ''json:'' \<and> val \<noteq> ''true'' \<and> val \<noteq> ''false'' \<longrightarrow>
            parseParameter J P arg = Inr (setProperty P name (JStr val)))
       \<and> (\<not> has_line_terminator val \<longrightarrow>
            parseParameter_idx P arg =
              Inr (setProperty P name
                (if val = ''true'' then JBool True else if val = ''false'' then JBool False
                 else JStr val)))"
proof -
  from assms(1) have s: "split_name_value arg = Some (name, val)" by (simp add: PARAM_RE_def)
  have t: "\<not> startsWith ''true'' ''json:''" "\<not> startsWith ''false'' ''json:''"
    by (simp_all add: startsWith_def)
  show ?thesis
    using assms t s
    by (auto simp: parseParameter_def parseParameter_idx_def PARAM_RE_idx_def)
qed


text \<open>
  The instances of C4 at the values \<open>json:{"a":1}\<close>, \<open>json:{\<close>, \<open>true\<close>, \<open>false\<close> and \<open>x\<close> of
  a parameter named \<open>x\<close>.
\<close>

theorem parseParameter_coercion_witness:
  "parseParameters sample_JSON_parse [''x=json:{\"a\":1}'']
      = Inr \<lparr>own = [(''x'', JObj [(''a'', JNum 1)])], proto = ObjectPrototype\<rparr>
   \<and> parseParameters sample_JSON_parse [''x=json:{'']  = Inl InvalidJson
   \<and> parseParameters sample_JSON_parse [''x=true'']
      = Inr \<lparr>own = [(''x'', JBool True)], proto = ObjectPrototype\<rparr>
   \<and> parseParameters sample_JSON_parse [''x=false'']
      = Inr \<lparr>own = [(''x'', JBool False)], proto = ObjectPrototype\<rparr>
   \<and> parseParameters sample_JSON_parse [''x=x'']
      = Inr \<lparr>own = [(''x'', JStr ''x'')], proto = ObjectPrototype\<rparr>
   \<and> parseParameters_idx [''x=true'']
      = Inr \<lparr>own = [(''x'', JBool True)], proto = ObjectPrototype\<rparr>
   \<and> parseParameters_idx [''x=x'']
      = Inr \<lparr>own = [(''x'', JStr ''x'')], proto = ObjectPrototype\<rparr>"
proof -
  have x: "''x'' \<noteq> ''@''" by simp
  have m1: "PARAM_RE ''x=json:{\"a\":1}'' = Some (''x'', ''json:{\"a\":1}'')"
    and m2: "PARAM_RE ''x=json:{'' = Some (''x'', ''json:{'')"
    and m3: "PARAM_RE ''x=true'' = Some (''x'', ''true'')"
    and m4: "PARAM_RE ''x=false'' = Some (''x'', ''false'')"
    and m5: "PARAM_RE ''x=x'' = Some (''x'', ''x'')"
    by (simp_all add: PARAM_RE_def split_name_value_def)
  have st: "setProperty empty_params ''x'' w = \<lparr>own = [(''x'', w)], proto = ObjectPrototype\<rparr>" for w
    by (simp add: setProperty_def empty_params_def)
  have "parseParameter sample_JSON_parse empty_params ''x=json:{\"a\":1}''
          = Inr (setProperty empty_params ''x'' (JObj [(''a'', JNum 1)]))"
    using parseParameter_coercion [OF m1 x, where J = sample_JSON_parse and v = "JObj [(''a'', JNum 1)]" and P = empty_params]
    by (simp add: startsWith_def sample_JSON_parse_def)
  moreover have "parseParameter sample_JSON_parse empty_params ''x=json:{'' = Inl InvalidJson"
    using parseParameter_coercion [OF m2 x, where J = sample_JSON_parse and P = empty_params]
    by (simp add: startsWith_def sample_JSON_parse_def)
  moreover have "parseParameter sample_JSON_parse empty_params ''x=true''
          = Inr (setProperty empty_params ''x'' (JBool True))"
    using parseParameter_coercion [OF m3 x, where J = sample_JSON_parse and P = empty_params] by simp
  moreover have "parseParameter sample_JSON_parse empty_params ''x=false''
          = Inr (setProperty empty_params ''x'' (JBool False))"
    using parseParameter_coercion [OF m4 x, where J = sample_JSON_parse and P = empty_params] by simp
  moreover have "parseParameter sample_JSON_parse empty_params ''x=x''
          = Inr (setProperty empty_params ''x'' (JStr ''x''))"
    using parseParameter_coercion [OF m5 x, where J = sample_JSON_parse and P = empty_params]
    by (simp add: startsWith_def)
  moreover have "parseParameter_idx empty_params ''x=true''
          = Inr (setProperty empty_params ''x'' (JBool True))"
    using parseParameter_coercion [OF m3 x, where J = sample_JSON_parse and P = empty_params] by simp
  moreover have "parseParameter_idx empty_params ''x=x''
          = Inr (setProperty empty_params ''x'' (JStr ''x''))"
    using parseParameter_coercion [OF m5 x, where J = sample_JSON_parse and P = empty_params] by simp
  ultimately show ?thesis
    by (simp only: parseParameters_single parseParameters_idx_single st)
qed

text \<open>
  C4 as stated fails in index.js, which has no \<open>json:\<close> step: the value \<open>json:{"a":1}\<close>
  is stored as that string, not as the object \<open>{a: 1}\<close>.
\<close>

theorem parseParameters_idx_keeps_json_text:
  "parseParameters_idx [''x=json:{\"a\":1}'']
     = Inr \<lparr>own = [(''x'', JStr ''json:{\"a\":1}'')], proto = ObjectPrototype\<rparr>"
  by (simp add: parseParameters_idx_def parseParameter_idx_def PARAM_RE_idx_def
      split_name_value_def setProperty_def empty_params_def)

text \<open>
  X4. In part_000 the \<open>true\<close>/\<open>false\<close> step is an \<open>if\<close> of its own after the \<open>json:\<close> step, not
  its \<open>else\<close>: the JSON string \<open>"true"\<close> is parsed to the string \<open>true\<close> and then stored as
  the boolean, two coercions on one value.
\<close>

lemma parseParameters_json_then_boolean:
  "parseParameters sample_JSON_parse [''x=json:\"true\"'']
     = Inr \<lparr>own = [(''x'', JBool True)], proto = ObjectPrototype\<rparr>"
  by (simp add: parseParameters_def parseParameter_def PARAM_RE_def split_name_value_def
      startsWith_def sample_JSON_parse_def setProperty_def empty_params_def)


section \<open>Properties of the reserved parameter and of the remote call\<close>

text \<open>
  The remote calls a run makes: the dispatcher and the bootstrapper of part_000 make
  none, the bootstrapper of index.js makes the sign-in call, and \<open>call\<close> makes the one call
  whose parameters are the own properties left by \<open>delete params['@']\<close>.
\<close>

lemma handleResult_no_XoCall:
  "XoCall m ps \<notin> set (fst (handleResult E baseUrl f result))"
  by (auto simp: handleResult_def
      split: list.splits option.splits json.splits if_splits)

lemma connect_no_XoCall:
  "XoCall m ps \<notin> set (fst (connect E))"
  by (auto simp: connect_def split: sum.splits option.splits if_splits)

lemma connect_idx_XoCall:
  "XoCall m ps \<in> set (fst (connect_idx E)) \<Longrightarrow> \<exists>t. ps = [(''token'', t)]"
  by (auto simp: connect_idx_def split: sum.splits option.splits if_splits)

lemma call_XoCall:
  "XoCall m ps \<in> set (fst (call E args)) \<Longrightarrow>
   \<exists>params. ps = own (deleteProperty params ''@'')"
  using connect_no_XoCall [of m ps E] handleResult_no_XoCall [of m ps E]
  by (auto simp: call_def split: list.splits sum.splits prod.splits) (metis fst_conv)+

lemma call_idx_XoCall:
  "XoCall m ps \<in> set (fst (call_idx E args)) \<Longrightarrow>
   (\<exists>params. ps = own (deleteProperty params ''@'')) \<or> (\<exists>t. ps = [(''token'', t)])"
  using connect_idx_XoCall [of m ps E] handleResult_no_XoCall [of m ps E]
  by (auto simp: call_idx_def split: list.splits sum.splits prod.splits) (metis fst_conv)+

lemma deleteProperty_no_key: "name \<notin> fst ` set (own (deleteProperty P name))"
  by (simp add: deleteProperty_def delete_notin_dom)

text \<open>
  C5 (as amended). The reserved name \<open>@\<close> is stored in the parameter object, where
  \<open>params['@']\<close> then reads it, and it is not among the parameters of any remote call the
  run makes. In index.js its value is stored as the raw string, with no coercion. In
  part_000 the \<open>json:\<close> coercion is applied to it before it is stored (a malformed rest
  failing with \<open>InvalidJson\<close>), and the boolean coercion is not: a value without the
  prefix is stored as the raw string, \<open>true\<close> and \<open>false\<close> included.
\<close>

theorem at_parameter_stored_not_forwarded:
  "(PARAM_RE arg = Some (''@'', val) \<longrightarrow>
      parseParameter J P arg =
        (if startsWith val ''json:''
         then (case J (drop 5 val) of
                 None \<Rightarrow> Inl InvalidJson
               | Some v \<Rightarrow> Inr (P\<lparr>own := AList.update ''@'' v (own P)\<rparr>))
         else Inr (P\<lparr>own := AList.update ''@'' (JStr val) (own P)\<rparr>)))
   \<and> (PARAM_RE_idx arg = Some (''@'', val) \<longrightarrow>
      parseParameter_idx P arg = Inr (P\<lparr>own := AList.update ''@'' (JStr val) (own P)\<rparr>))
   \<and> getParam (P\<lparr>own := AList.update ''@'' w (own P)\<rparr>) ''@'' = Some w
   \<and> (\<forall>m ps. XoCall m ps \<in> set (fst (call E args)) \<longrightarrow> ''@'' \<notin> fst ` set ps)
   \<and> (\<forall>m ps. XoCall m ps \<in> set (fst (call_idx E args)) \<longrightarrow> ''@'' \<notin> fst ` set ps)"
proof (intro conjI allI impI)
  assume "PARAM_RE arg = Some (''@'', val)"
  then show "parseParameter J P arg =
        (if startsWith val ''json:''
         then (case J (drop 5 val) of
                 None \<Rightarrow> Inl InvalidJson
               | Some v \<Rightarrow> Inr (P\<lparr>own := AList.update ''@'' v (own P)\<rparr>))
         else Inr (P\<lparr>own := AList.update ''@'' (JStr val) (own P)\<rparr>))"
    by (simp add: parseParameter_def setProperty_def split: option.splits)
next
  assume "PARAM_RE_idx arg = Some (''@'', val)"
  then show "parseParameter_idx P arg = Inr (P\<lparr>own := AList.update ''@'' (JStr val) (own P)\<rparr>)"
    by (simp add: parseParameter_idx_def setProperty_def)
next
  show "getParam (P\<lparr>own := AList.update ''@'' w (own P)\<rparr>) ''@'' = Some w"
    by (simp add: getParam_def update_conv')
next
  fix m ps
  assume "XoCall m ps \<in> set (fst (call E args))"
  then show "''@'' \<notin> fst ` set ps"
    using call_XoCall deleteProperty_no_key by blast
next
  fix m ps
  assume "XoCall m ps \<in> set (fst (call_idx E args))"
  then have "(\<exists>params. ps = own (deleteProperty params ''@'')) \<or> (\<exists>t. ps = [(''token'', t)])"
    by (rule call_idx_XoCall)
  then show "''@'' \<notin> fst ` set ps"
    using deleteProperty_no_key by auto
qed

text \<open>
  C5 as stated fails in part_000: the token \<open>@=true\<close> stores the string \<open>true\<close>, where the
  coercion of every other name (\<open>x=true\<close>) stores the boolean.
\<close>

theorem at_value_not_boolean:
  "\<forall>J. parseParameters J [''@=true'']
          = Inr \<lparr>own = [(''@'', JStr ''true'')], proto = ObjectPrototype\<rparr>
     \<and> parseParameters J [''x=true'']
          = Inr \<lparr>own = [(''x'', JBool True)], proto = ObjectPrototype\<rparr>"
  by (simp add: parseParameters_def parseParameter_def PARAM_RE_def split_name_value_def
      startsWith_def setProperty_def empty_params_def)


text \<open>
  A run of part_000 in the sample environment: \<open>vm.import @=disk.vhd sr=1\<close>, answered by
  the upload sentinel. The path reaches the dispatcher and the remote call carries \<open>sr\<close>
  alone.
\<close>

lemma call_sample_events:
  "fst (call (sample_env \<lparr>server = Some (JStr ''http://h''), token = Some (JStr ''t0k'')\<rparr> r
               (JObj [(''$sendTo'', JStr ''/upload/1'')]))
          [''vm.import'', ''@=disk.vhd'', ''sr=1''])
   = [XoNew (JStr ''http://h''), XoOpen (JStr ''http://h''), XoSignIn (JStr ''t0k''),
      XoCall ''vm.import'' [(''sr'', JStr ''1'')],
      Stat ''disk.vhd'', CreateReadStream ''disk.vhd'',
      HttpPost (r ''http://h/api/'' ''/upload/1'') 1048576 ''disk.vhd'']"
  by (simp add: call_def parseParameters_def parseParameter_def PARAM_RE_def
      split_name_value_def startsWith_def setProperty_def empty_params_def deleteProperty_def
      getParam_def connect_def sample_env_def handleResult_def replace_ws_def)

text \<open>The same run of index.js.\<close>

lemma call_idx_sample_events:
  "fst (call_idx (sample_env \<lparr>server = Some (JStr ''http://h''), token = Some (JStr ''t0k'')\<rparr> r
               (JObj [(''$sendTo'', JStr ''/upload/1'')]))
          [''vm.import'', ''@=disk.vhd'', ''sr=1''])
   = [XoNew (JStr ''http://h''),
      XoCall ''session.signInWithToken'' [(''token'', JStr ''t0k'')],
      XoCall ''vm.import'' [(''sr'', JStr ''1'')],
      Stat ''disk.vhd'', CreateReadStream ''disk.vhd'',
      HttpPost (r ''ws://h/api/'' ''/upload/1'') 1048576 ''disk.vhd'']"
  by (simp add: call_idx_def parseParameters_idx_def parseParameter_idx_def PARAM_RE_idx_def
      split_name_value_def setProperty_def empty_params_def deleteProperty_def
      getParam_def connect_idx_def sample_env_def handleResult_def)

text \<open>
  The instances of C5 at the token \<open>@=json:"a.iso"\<close> in both files, and at the run above.
\<close>

theorem at_parameter_stored_not_forwarded_witness:
  "parseParameters sample_JSON_parse [''@=json:\"a.iso\"'']
      = Inr \<lparr>own = [(''@'', JStr ''a.iso'')], proto = ObjectPrototype\<rparr>
   \<and> parseParameters_idx [''@=json:\"a.iso\"'']
      = Inr \<lparr>own = [(''@'', JStr ''json:\"a.iso\"'')], proto = ObjectPrototype\<rparr>
   \<and> getParam \<lparr>own = [(''@'', JStr ''a.iso'')], proto = ObjectPrototype\<rparr> ''@'' = Some (JStr ''a.iso'')
   \<and> (\<forall>r. XoCall ''vm.import'' [(''sr'', JStr ''1'')]
           \<in> set (fst (call (sample_env \<lparr>server = Some (JStr ''http://h''), token = Some (JStr ''t0k'')\<rparr> r
                              (JObj [(''$sendTo'', JStr ''/upload/1'')]))
                         [''vm.import'', ''@=disk.vhd'', ''sr=1'']))
         \<and> ''@'' \<notin> fst ` set [(''sr'', JStr ''1'')])
   \<and> (\<forall>r. XoCall ''vm.import'' [(''sr'', JStr ''1'')]
           \<in> set (fst (call_idx (sample_env \<lparr>server = Some (JStr ''http://h''), token = Some (JStr ''t0k'')\<rparr> r
                              (JObj [(''$sendTo'', JStr ''/upload/1'')]))
                         [''vm.import'', ''@=disk.vhd'', ''sr=1'']))
         \<and> ''@'' \<notin> fst ` set [(''sr'', JStr ''1'')])"
proof -
  have m: "PARAM_RE ''@=json:\"a.iso\"'' = Some (''@'', ''json:\"a.iso\"'')"
    and mi: "PARAM_RE_idx ''@=json:\"a.iso\"'' = Some (''@'', ''json:\"a.iso\"'')"
    by (simp_all add: PARAM_RE_def PARAM_RE_idx_def split_name_value_def)
  have e: "empty_params\<lparr>own := AList.update ''@'' w (own empty_params)\<rparr>
             = \<lparr>own = [(''@'', w)], proto = ObjectPrototype\<rparr>" for w
    by (simp add: empty_params_def)
  have "parseParameter sample_JSON_parse empty_params ''@=json:\"a.iso\"''
          = Inr (empty_params\<lparr>own := AList.update ''@'' (JStr ''a.iso'') (own empty_params)\<rparr>)"
    using at_parameter_stored_not_forwarded [where arg = "''@=json:\"a.iso\"''" and val = "''json:\"a.iso\"''"
        and J = sample_JSON_parse and P = empty_params] m
    by (simp add: startsWith_def sample_JSON_parse_def)
  then have a: "parseParameters sample_JSON_parse [''@=json:\"a.iso\"'']
      = Inr \<lparr>own = [(''@'', JStr ''a.iso'')], proto = ObjectPrototype\<rparr>"
    by (simp only: parseParameters_single e)
  have "parseParameter_idx empty_params ''@=json:\"a.iso\"''
          = Inr (empty_params\<lparr>own := AList.update ''@'' (JStr ''json:\"a.iso\"'') (own empty_params)\<rparr>)"
    using at_parameter_stored_not_forwarded [where arg = "''@=json:\"a.iso\"''" and val = "''json:\"a.iso\"''"
        and P = empty_params] mi
    by blast
  then have b: "parseParameters_idx [''@=json:\"a.iso\"'']
      = Inr \<lparr>own = [(''@'', JStr ''json:\"a.iso\"'')], proto = ObjectPrototype\<rparr>"
    by (simp only: parseParameters_idx_single e)
  have c: "getParam \<lparr>own = [(''@'', JStr ''a.iso'')], proto = ObjectPrototype\<rparr> ''@'' = Some (JStr ''a.iso'')"
    using at_parameter_stored_not_forwarded [where P = empty_params and w = "JStr ''a.iso''"] by (simp only: e)
  have d: "XoCall ''vm.import'' [(''sr'', JStr ''1'')]
           \<in> set (fst (call (sample_env \<lparr>server = Some (JStr ''http://h''), token = Some (JStr ''t0k'')\<rparr> r
                              (JObj [(''$sendTo'', JStr ''/upload/1'')]))
                         [''vm.import'', ''@=disk.vhd'', ''sr=1'']))
         \<and> ''@'' \<notin> fst ` set [(''sr'', JStr ''1'')]" for r
  proof -
    have i: "XoCall ''vm.import'' [(''sr'', JStr ''1'')]
           \<in> set (fst (call (sample_env \<lparr>server = Some (JStr ''http://h''), token = Some (JStr ''t0k'')\<rparr> r
                              (JObj [(''$sendTo'', JStr ''/upload/1'')]))
                         [''vm.import'', ''@=disk.vhd'', ''sr=1'']))"
      by (simp only: call_sample_events) simp
    with at_parameter_stored_not_forwarded [where E = "sample_env \<lparr>server = Some (JStr ''http://h''), token = Some (JStr ''t0k'')\<rparr> r
                              (JObj [(''$sendTo'', JStr ''/upload/1'')])"
        and args = "[''vm.import'', ''@=disk.vhd'', ''sr=1'']"]
    show ?thesis by blast
  qed
  have d': "XoCall ''vm.import'' [(''sr'', JStr ''1'')]
           \<in> set (fst (call_idx (sample_env \<lparr>server = Some (JStr ''http://h''), token = Some (JStr ''t0k'')\<rparr> r
                              (JObj [(''$sendTo'', JStr ''/upload/1'')]))
                         [''vm.import'', ''@=disk.vhd'', ''sr=1'']))
         \<and> ''@'' \<notin> fst ` set [(''sr'', JStr ''1'')]" for r
  proof -
    have i: "XoCall ''vm.import'' [(''sr'', JStr ''1'')]
           \<in> set (fst (call_idx (sample_env \<lparr>server = Some (JStr ''http://h''), token = Some (JStr ''t0k'')\<rparr> r
                              (JObj [(''$sendTo'', JStr ''/upload/1'')]))
                         [''vm.import'', ''@=disk.vhd'', ''sr=1'']))"
      by (simp only: call_idx_sample_events) simp
    with at_parameter_stored_not_forwarded [where E = "sample_env \<lparr>server = Some (JStr ''http://h''), token = Some (JStr ''t0k'')\<rparr> r
                              (JObj [(''$sendTo'', JStr ''/upload/1'')])"
        and args = "[''vm.import'', ''@=disk.vhd'', ''sr=1'']"]
    show ?thesis by blast
  qed
  from a b c d d' show ?thesis by blast
qed


section \<open>Properties of the base URL\<close>

text \<open>
  X7. The base URL that a sentinel path is resolved against is the one \<open>call\<close> hands to
  the dispatcher. In part_000 it is the session's URL (\<open>xo._url\<close>) with a leading \<open>ws\<close>
  replaced by \<open>http\<close>: \<open>ws://\<close> becomes \<open>http://\<close>, \<open>wss://\<close> becomes \<open>https://\<close>, and a URL that
  does not start with \<open>ws\<close> is left as it is. index.js hands over the session's URL
  itself, which is the same base exactly when that URL does not start with \<open>ws\<close>. The URL
  of the download request and of the upload request is \<open>url.resolve\<close> of the base and
  the sentinel's path.
\<close>

theorem call_baseUrl:
  "replace_ws (''ws://'' @ host) = ''http://'' @ host
   \<and> replace_ws (''wss://'' @ host) = ''https://'' @ host
   \<and> (take 2 url \<noteq> ''ws'' \<longrightarrow> replace_ws url = url)
   \<and> (parseParameters (JSON_parse E) rest = Inr params
        \<and> connect E = (evs, Inr xo)
        \<and> xo_call E m (own (deleteProperty params ''@'')) = Inr result \<longrightarrow>
        call E (m # rest) =
          (evs @ [XoCall m (own (deleteProperty params ''@''))]
             @ fst (handleResult E (replace_ws (xo_url E xo)) (getParam params ''@'') result),
           snd (handleResult E (replace_ws (xo_url E xo)) (getParam params ''@'') result)))
   \<and> (parseParameters_idx rest = Inr params
        \<and> connect_idx E = (evs, Inr xo)
        \<and> xo_call E m (own (deleteProperty params ''@'')) = Inr result \<longrightarrow>
        call_idx E (m # rest) =
          (evs @ [XoCall m (own (deleteProperty params ''@''))]
             @ fst (handleResult E (xo_url E xo) (getParam params ''@'') result),
           snd (handleResult E (xo_url E xo) (getParam params ''@'') result)))
   \<and> fst (handleResult E baseUrl (Some (JStr p)) (JObj [(''$getFrom'', JStr rel)]))
        = [CreateWriteStream p, HttpGet (resolveUrl E baseUrl rel)]
   \<and> (stat E p = Some n \<longrightarrow>
        fst (handleResult E baseUrl (Some (JStr p)) (JObj [(''$sendTo'', JStr rel)]))
          = [Stat p, CreateReadStream p, HttpPost (resolveUrl E baseUrl rel) n p])"
  by (simp add: replace_ws_def call_def call_idx_def handleResult_def
      split: prod.splits)

text \<open>
  C6. For every sentinel transfer the base URL the sentinel path is resolved against is
  the session's URL with a \<open>ws\<close>/\<open>wss\<close> prefix rewritten to \<open>http\<close>/\<open>https\<close>, so that the
  transfer URL has an HTTP scheme whatever the scheme of the control channel. In the run
  \<open>vm.export @=out.xva\<close> of a session whose URL is \<open>ws://h/api/\<close>, answered by the download
  sentinel \<open>/files/abc\<close>: index.js resolves the path against \<open>ws://h/api/\<close> as it is, asks
  the HTTP client for \<open>ws://h/files/abc\<close>, and the download fails; part_000 rewrites the
  base, asks for \<open>http://h/files/abc\<close>, and the download finishes.
\<close>

theorem call_idx_resolves_against_ws:
  "xo_url http_only_env (JStr ''http://h'') = ''ws://h/api/''
   \<and> call_idx http_only_env [''vm.export'', ''@=out.xva'']
      = ([XoNew (JStr ''http://h''),
          XoCall ''session.signInWithToken'' [(''token'', JStr ''t0k'')],
          XoCall ''vm.export'' [],
          CreateWriteStream ''out.xva'', HttpGet ''ws://h/files/abc''],
         Inl TransferFailed)
   \<and> call http_only_env [''vm.export'', ''@=out.xva'']
      = ([XoNew (JStr ''http://h''), XoOpen (JStr ''http://h''), XoSignIn (JStr ''t0k''),
          XoCall ''vm.export'' [],
          CreateWriteStream ''out.xva'', HttpGet ''http://h/files/abc''],
         Inr Finished)"
  by (simp add: call_idx_def call_def parseParameters_idx_def parseParameters_def
      parseParameter_idx_def parseParameter_def PARAM_RE_idx_def PARAM_RE_def
      split_name_value_def startsWith_def setProperty_def empty_params_def deleteProperty_def
      getParam_def connect_idx_def connect_def http_only_env_def sample_env_def
      sample_resolveUrl_def handleResult_def replace_ws_def)

text \<open>
  The instances of X7: the three kinds of session URL, the run
  \<open>vm.export @=out.xva\<close> answered by the download sentinel in both files, and the upload
  of \<open>disk.vhd\<close> against the base \<open>http://h/api/\<close>.
\<close>

theorem call_baseUrl_witness:
  "replace_ws ''ws://h/api/'' = ''http://h/api/''
   \<and> replace_ws ''wss://h/api/'' = ''https://h/api/''
   \<and> replace_ws ''http://h/api/'' = ''http://h/api/''
   \<and> (\<forall>r. fst (call (sample_env \<lparr>server = Some (JStr ''http://h''), token = Some (JStr ''t0k'')\<rparr> r
                       (JObj [(''$getFrom'', JStr ''/files/abc'')]))
                  [''vm.export'', ''@=out.xva''])
          = [XoNew (JStr ''http://h''), XoOpen (JStr ''http://h''), XoSignIn (JStr ''t0k''),
             XoCall ''vm.export'' [],
             CreateWriteStream ''out.xva'', HttpGet (r ''http://h/api/'' ''/files/abc'')])
   \<and> (\<forall>r. fst (call_idx (sample_env \<lparr>server = Some (JStr ''http://h''), token = Some (JStr ''t0k'')\<rparr> r
                       (JObj [(''$getFrom'', JStr ''/files/abc'')]))
                  [''vm.export'', ''@=out.xva''])
          = [XoNew (JStr ''http://h''),
             XoCall ''session.signInWithToken'' [(''token'', JStr ''t0k'')],
             XoCall ''vm.export'' [],
             CreateWriteStream ''out.xva'', HttpGet (r ''ws://h/api/'' ''/files/abc'')])
   \<and> (\<forall>r. fst (handleResult (sample_env \<lparr>server = Some (JStr ''http://h''), token = Some (JStr ''t0k'')\<rparr> r
                               (JObj [(''$sendTo'', JStr ''/upload/1'')]))
                  ''http://h/api/'' (Some (JStr ''disk.vhd'')) (JObj [(''$sendTo'', JStr ''/upload/1'')]))
          = [Stat ''disk.vhd'', CreateReadStream ''disk.vhd'',
             HttpPost (r ''http://h/api/'' ''/upload/1'') 1048576 ''disk.vhd''])"
proof -
  let ?c = "\<lparr>server = Some (JStr ''http://h''), token = Some (JStr ''t0k'')\<rparr>"
  let ?res = "JObj [(''$getFrom'', JStr ''/files/abc'')]"
  let ?P = "\<lparr>own = [(''@'', JStr ''out.xva'')], proto = ObjectPrototype\<rparr>"
  have a: "replace_ws ''ws://h/api/'' = ''http://h/api/''"
    using call_baseUrl [where host = "''h/api/''"] by simp
  have b: "replace_ws ''wss://h/api/'' = ''https://h/api/''"
    using call_baseUrl [where host = "''h/api/''"] by simp
  have c: "replace_ws ''http://h/api/'' = ''http://h/api/''"
    using call_baseUrl [where url = "''http://h/api/''"] by simp
  have d: "fst (call (sample_env ?c r ?res) [''vm.export'', ''@=out.xva''])
          = [XoNew (JStr ''http://h''), XoOpen (JStr ''http://h''), XoSignIn (JStr ''t0k''),
             XoCall ''vm.export'' [],
             CreateWriteStream ''out.xva'', HttpGet (r ''http://h/api/'' ''/files/abc'')]" for r
  proof -
    let ?E = "sample_env ?c r ?res"
    have p: "parseParameters (JSON_parse ?E) [''@=out.xva''] = Inr ?P"
      by (simp add: parseParameters_def parseParameter_def PARAM_RE_def split_name_value_def
          startsWith_def setProperty_def empty_params_def)
    have k: "connect ?E
               = ([XoNew (JStr ''http://h''), XoOpen (JStr ''http://h''), XoSignIn (JStr ''t0k'')],
                  Inr (JStr ''http://h''))"
      by (simp add: connect_def sample_env_def)
    have x: "xo_call ?E ''vm.export'' (own (deleteProperty ?P ''@'')) = Inr ?res"
      by (simp add: sample_env_def)
    have u: "xo_url ?E (JStr ''http://h'') = ''ws://h/api/''" and g: "getParam ?P ''@'' = Some (JStr ''out.xva'')"
      and r: "resolveUrl ?E = r" and dl: "own (deleteProperty ?P ''@'') = []"
      by (simp_all add: sample_env_def getParam_def deleteProperty_def)
    from call_baseUrl [where E = ?E and rest = "[''@=out.xva'']" and params = ?P
        and evs = "[XoNew (JStr ''http://h''), XoOpen (JStr ''http://h''), XoSignIn (JStr ''t0k'')]"
        and xo = "JStr ''http://h''" and m = "''vm.export''" and result = ?res
        and baseUrl = "''http://h/api/''" and p = "''out.xva''" and rel = "''/files/abc''"]
      p k x
    show ?thesis by (simp add: u g r dl a)
  qed
  have e: "fst (call_idx (sample_env ?c r ?res) [''vm.export'', ''@=out.xva''])
          = [XoNew (JStr ''http://h''),
             XoCall ''session.signInWithToken'' [(''token'', JStr ''t0k'')],
             XoCall ''vm.export'' [],
             CreateWriteStream ''out.xva'', HttpGet (r ''ws://h/api/'' ''/files/abc'')]" for r
  proof -
    let ?E = "sample_env ?c r ?res"
    have p: "parseParameters_idx [''@=out.xva''] = Inr ?P"
      by (simp add: parseParameters_idx_def parseParameter_idx_def PARAM_RE_idx_def
          split_name_value_def setProperty_def empty_params_def)
    have k: "connect_idx ?E
               = ([XoNew (JStr ''http://h''),
                   XoCall ''session.signInWithToken'' [(''token'', JStr ''t0k'')]],
                  Inr (JStr ''http://h''))"
      by (simp add: connect_idx_def sample_env_def)
    have x: "xo_call ?E ''vm.export'' (own (deleteProperty ?P ''@'')) = Inr ?res"
      by (simp add: sample_env_def)
    have u: "xo_url ?E (JStr ''http://h'') = ''ws://h/api/''" and g: "getParam ?P ''@'' = Some (JStr ''out.xva'')"
      and r: "resolveUrl ?E = r" and dl: "own (deleteProperty ?P ''@'') = []"
      by (simp_all add: sample_env_def getParam_def deleteProperty_def)
    from call_baseUrl [where E = ?E and rest = "[''@=out.xva'']" and params = ?P
        and evs = "[XoNew (JStr ''http://h''),
                   XoCall ''session.signInWithToken'' [(''token'', JStr ''t0k'')]]"
        and xo = "JStr ''http://h''" and m = "''vm.export''" and result = ?res
        and baseUrl = "''ws://h/api/''" and p = "''out.xva''" and rel = "''/files/abc''"]
      p k x
    show ?thesis by (simp add: u g r dl)
  qed
  have f: "fst (handleResult (sample_env ?c r (JObj [(''$sendTo'', JStr ''/upload/1'')]))
                  ''http://h/api/'' (Some (JStr ''disk.vhd'')) (JObj [(''$sendTo'', JStr ''/upload/1'')]))
          = [Stat ''disk.vhd'', CreateReadStream ''disk.vhd'',
             HttpPost (r ''http://h/api/'' ''/upload/1'') 1048576 ''disk.vhd'']" for r
  proof -
    let ?E = "sample_env ?c r (JObj [(''$sendTo'', JStr ''/upload/1'')])"
    have st: "stat ?E ''disk.vhd'' = Some 1048576" and r: "resolveUrl ?E = r"
      by (simp_all add: sample_env_def)
    from call_baseUrl [where E = ?E and p = "''disk.vhd''" and n = 1048576
        and baseUrl = "''http://h/api/''" and rel = "''/upload/1''"] st
    show ?thesis by (simp add: r)
  qed
  from a b c d e f show ?thesis by blast
qed


section \<open>Properties of the session bootstrapper\<close>

text \<open>
  C7. \<open>connect\<close> fails with \<open>NotConfigured\<close> when the persisted server URL is absent (or
  falsy), and with \<open>NotAuthenticated\<close> when the server URL is there and the token is absent
  (or falsy); the server URL is checked first, so with both absent the failure is
  \<open>NotConfigured\<close>; in both failures nothing was done to the transport. It touches the
  transport only when both fields are present, and when both are truthy it makes the
  client for the server URL, opens it and signs in with the token (in index.js: makes
  the client and signs in with the token through \<open>session.signInWithToken\<close>).
\<close>

theorem connect_checks:
  assumes "config_load E = Inr config"
  shows "(\<not> truthy_opt (server config) \<longrightarrow>
            connect E = ([], Inl NotConfigured) \<and> connect_idx E = ([], Inl NotConfigured))
       \<and> (truthy_opt (server config) \<and> \<not> truthy_opt (token config) \<longrightarrow>
            connect E = ([], Inl NotAuthenticated) \<and> connect_idx E = ([], Inl NotAuthenticated))
       \<and> (fst (connect E) \<noteq> [] \<or> fst (connect_idx E) \<noteq> [] \<longrightarrow>
            server config \<noteq> None \<and> token config \<noteq> None)
       \<and> (server config = Some s \<and> truthy s \<and> token config = Some t \<and> truthy t \<longrightarrow>
            fst (connect E) =
              (if xo_open E s = None then [XoNew s, XoOpen s, XoSignIn t] else [XoNew s, XoOpen s])
            \<and> fst (connect_idx E) = [XoNew s, XoCall ''session.signInWithToken'' [(''token'', t)]])"
  using assms
  by (auto simp: connect_def connect_idx_def split: option.splits sum.splits if_splits)

text \<open>
  The instances of C7 in the sample environment with no credentials, with the server
  URL alone, and with both.
\<close>

theorem connect_checks_witness:
  "\<forall>r result.
     connect (sample_env \<lparr>server = None, token = None\<rparr> r result) = ([], Inl NotConfigured)
   \<and> connect_idx (sample_env \<lparr>server = None, token = None\<rparr> r result) = ([], Inl NotConfigured)
   \<and> connect (sample_env \<lparr>server = Some (JStr ''http://h''), token = None\<rparr> r result)
        = ([], Inl NotAuthenticated)
   \<and> connect_idx (sample_env \<lparr>server = Some (JStr ''http://h''), token = None\<rparr> r result)
        = ([], Inl NotAuthenticated)
   \<and> fst (connect (sample_env \<lparr>server = Some (JStr ''http://h''), token = Some (JStr ''t0k'')\<rparr> r result))
        = [XoNew (JStr ''http://h''), XoOpen (JStr ''http://h''), XoSignIn (JStr ''t0k'')]
   \<and> fst (connect_idx (sample_env \<lparr>server = Some (JStr ''http://h''), token = Some (JStr ''t0k'')\<rparr> r result))
        = [XoNew (JStr ''http://h''), XoCall ''session.signInWithToken'' [(''token'', JStr ''t0k'')]]
   \<and> fst (connect (sample_env \<lparr>server = Some (JStr ''http://h''), token = Some (JStr ''t0k'')\<rparr> r result)) \<noteq> []
   \<and> server \<lparr>server = Some (JStr ''http://h''), token = Some (JStr ''t0k'')\<rparr> \<noteq> None
   \<and> token \<lparr>server = Some (JStr ''http://h''), token = Some (JStr ''t0k'')\<rparr> \<noteq> None"
proof (intro allI)
  fix r result
  let ?E0 = "sample_env \<lparr>server = None, token = None\<rparr> r result"
  let ?E1 = "sample_env \<lparr>server = Some (JStr ''http://h''), token = None\<rparr> r result"
  let ?E2 = "sample_env \<lparr>server = Some (JStr ''http://h''), token = Some (JStr ''t0k'')\<rparr> r result"
  have l0: "config_load ?E0 = Inr \<lparr>server = None, token = None\<rparr>"
    and l1: "config_load ?E1 = Inr \<lparr>server = Some (JStr ''http://h''), token = None\<rparr>"
    and l2: "config_load ?E2 = Inr \<lparr>server = Some (JStr ''http://h''), token = Some (JStr ''t0k'')\<rparr>"
    and o: "xo_open ?E2 (JStr ''http://h'') = None"
    by (simp_all add: sample_env_def)
  have a: "connect ?E0 = ([], Inl NotConfigured) \<and> connect_idx ?E0 = ([], Inl NotConfigured)"
    using connect_checks [OF l0] by simp
  have b: "connect ?E1 = ([], Inl NotAuthenticated) \<and> connect_idx ?E1 = ([], Inl NotAuthenticated)"
    using connect_checks [OF l1] by simp
  have c: "fst (connect ?E2) = [XoNew (JStr ''http://h''), XoOpen (JStr ''http://h''), XoSignIn (JStr ''t0k'')]
     \<and> fst (connect_idx ?E2) = [XoNew (JStr ''http://h''), XoCall ''session.signInWithToken'' [(''token'', JStr ''t0k'')]]"
    using connect_checks [OF l2, where s = "JStr ''http://h''" and t = "JStr ''t0k''"] o by simp
  from c have n: "fst (connect ?E2) \<noteq> []" by simp
  with connect_checks [OF l2]
  have d: "server \<lparr>server = Some (JStr ''http://h''), token = Some (JStr ''t0k'')\<rparr> \<noteq> None
     \<and> token \<lparr>server = Some (JStr ''http://h''), token = Some (JStr ''t0k'')\<rparr> \<noteq> None"
    by blast
  from a b c n d show "connect ?E0 = ([], Inl NotConfigured)
   \<and> connect_idx ?E0 = ([], Inl NotConfigured)
   \<and> connect ?E1 = ([], Inl NotAuthenticated)
   \<and> connect_idx ?E1 = ([], Inl NotAuthenticated)
   \<and> fst (connect ?E2) = [XoNew (JStr ''http://h''), XoOpen (JStr ''http://h''), XoSignIn (JStr ''t0k'')]
   \<and> fst (connect_idx ?E2) = [XoNew (JStr ''http://h''), XoCall ''session.signInWithToken'' [(''token'', JStr ''t0k'')]]
   \<and> fst (connect ?E2) \<noteq> []
   \<and> server \<lparr>server = Some (JStr ''http://h''), token = Some (JStr ''t0k'')\<rparr> \<noteq> None
   \<and> token \<lparr>server = Some (JStr ''http://h''), token = Some (JStr ''t0k'')\<rparr> \<noteq> None"
    by blast
qed

section \<open>Properties of the command-line dispatch\<close>

text \<open>The transform on the flags of the usage text and on bare tokens.\<close>

lemma fnName_examples:
  "fnName ''--register'' = ''register''"
  "fnName ''--unregister'' = ''unregister''"
  "fnName ''--list-commands'' = ''listCommands''"
  "fnName ''--list-objects'' = ''listObjects''"
  "fnName ''register'' = ''register''"
  "fnName ''unregister'' = ''unregister''"
  "fnName ''listCommands'' = ''listCommands''"
  "fnName ''call'' = ''call''"
  "fnName ''help'' = ''help''"
  "fnName ''-h'' = ''H''"
  "fnName ''vm.start'' = ''vm.start''"
  by (simp_all add: fnName_def word_char_def toUpperCase_def)

text \<open>
  C9. A first token whose transform (a leading \<open>--\<close> stripped, each \<open>-x\<close> replaced by the
  upper-cased \<open>x\<close>) names an exported local operation is dispatched to that operation with
  the remaining arguments, and is not handed to \<open>call\<close> as the name of a remote method. So
  the bare tokens \<open>register\<close>, \<open>unregister\<close>, \<open>listCommands\<close>, \<open>call\<close> and \<open>help\<close>, with no
  leading \<open>--\<close>, run the local operation.
\<close>

theorem main_local_dispatch:
  "(fnName arg \<in> set local_operations \<longrightarrow>
      main (Some (arg # rest)) = Invoke (fnName arg) rest
      \<and> main (Some (arg # rest)) \<noteq> Invoke ''call'' (arg # rest))
   \<and> main (Some (''register'' # rest)) = Invoke ''register'' rest
   \<and> main (Some (''unregister'' # rest)) = Invoke ''unregister'' rest
   \<and> main (Some (''listCommands'' # rest)) = Invoke ''listCommands'' rest
   \<and> main (Some (''call'' # rest)) = Invoke ''call'' rest
   \<and> main (Some (''help'' # rest)) = Invoke ''help'' rest"
proof -
  have h: "fnName arg \<in> set local_operations \<Longrightarrow> arg \<noteq> ''-h''"
    using fnName_examples(10) by (auto simp: local_operations_def)
  have "fnName arg \<in> set local_operations \<Longrightarrow>
      main (Some (arg # rest)) = Invoke (fnName arg) rest"
    using h by (simp add: main_def)
  then show ?thesis
    by (simp add: main_def fnName_examples local_operations_def)
qed

text \<open>The instances of C9 at \<open>--list-commands --json\<close> and at the bare \<open>unregister\<close>.\<close>

theorem main_local_dispatch_witness:
  "fnName ''--list-commands'' \<in> set local_operations
   \<and> main (Some [''--list-commands'', ''--json'']) = Invoke ''listCommands'' [''--json'']
   \<and> fnName ''unregister'' \<in> set local_operations
   \<and> main (Some [''unregister'']) = Invoke ''unregister'' []
   \<and> main (Some [''unregister'']) \<noteq> Invoke ''call'' [''unregister'']"
proof -
  have a: "fnName ''--list-commands'' \<in> set local_operations"
    and b: "fnName ''unregister'' \<in> set local_operations"
    by (simp_all add: fnName_examples local_operations_def)
  from main_local_dispatch [where arg = "''--list-commands''" and rest = "[''--json'']"] a
  have c: "main (Some [''--list-commands'', ''--json'']) = Invoke ''listCommands'' [''--json'']"
    by (simp add: fnName_examples)
  from main_local_dispatch [where arg = "''unregister''" and rest = "[]"] b
  have d: "main (Some [''unregister'']) = Invoke ''unregister'' []
   \<and> main (Some [''unregister'']) \<noteq> Invoke ''call'' [''unregister'']"
    by (simp add: fnName_examples)
  from a b c d show ?thesis by blast
qed

text \<open>Any other first token is the name of a remote method.\<close>

lemma main_remote:
  "main (Some [''vm.start'', ''id=7'']) = Invoke ''call'' [''vm.start'', ''id=7'']"
  by (simp add: main_def fnName_examples local_operations_def function_properties_def)

text \<open>
  X6. A first token that names a property which \<open>exports\<close>, being a function, has anyway
  (such as \<open>toString\<close>) is in \<open>exports\<close> too, and is invoked locally.
\<close>

lemma main_inherited:
  "main (Some [''toString'']) = Invoke ''toString'' []"
  by (simp add: main_def fnName_def word_char_def toUpperCase_def local_operations_def
      function_properties_def)

section \<open>Properties of the progress reporter\<close>

text \<open>
  C10. The formatter selects the detailed format (percentage, total size, speed, ETA)
  if and only if the total length of the sample is truthy, and the short format
  (transferred bytes and speed) otherwise. A sample whose total length is the number 0,
  or is absent, is rendered with the short format: no percentage and no ETA.
\<close>

theorem printProgress_format:
  "(fst (printProgress R p) = ''%s% of %s @ %s/s - ETA %s'') = truthy_opt (length_total p)
   \<and> (fst (printProgress R p) = ''%s @ %s/s'') = (\<not> truthy_opt (length_total p))
   \<and> snd (printProgress R p) =
       (if truthy_opt (length_total p)
        then [Math_round R (percentage p), humanFormat R (length_total p),
              humanFormat R (speed p), prettyMs_1e3 R (eta p)]
        else [humanFormat R (transferred p), humanFormat R (speed p)])
   \<and> printProgress R (p\<lparr>length_total := Some (JNum 0)\<rparr>)
       = (''%s @ %s/s'', [humanFormat R (transferred p), humanFormat R (speed p)])
   \<and> printProgress R (p\<lparr>length_total := None\<rparr>)
       = (''%s @ %s/s'', [humanFormat R (transferred p), humanFormat R (speed p)])"
  by (simp add: printProgress_def)

text \<open>
  A sample of known length 1048576 is rendered with the detailed format. So is one
  whose length is the string \<open>0\<close>, which is truthy: only the number zero is falsy.
\<close>

lemma printProgress_known_length:
  "printProgress R (p\<lparr>length_total := Some (JNum 1048576)\<rparr>)
     = (''%s% of %s @ %s/s - ETA %s'',
        [Math_round R (percentage p), humanFormat R (Some (JNum 1048576)),
         humanFormat R (speed p), prettyMs_1e3 R (eta p)])"
  by (simp add: printProgress_def)

lemma printProgress_zero_string:
  "fst (printProgress R (p\<lparr>length_total := Some (JStr ''0'')\<rparr>)) = ''%s% of %s @ %s/s - ETA %s''"
  by (simp add: printProgress_def)


section \<open>Properties of parsing and re-serialising\<close>

text \<open>
  On the empty object an assignment makes the one own property, unless the name is
  \<open>__proto__\<close>: that assignment runs the setter of \<open>Object.prototype\<close> and makes none.
\<close>

lemma setProperty_empty:
  "name \<noteq> ''__proto__'' \<Longrightarrow>
   setProperty empty_params name w = \<lparr>own = [(name, w)], proto = ObjectPrototype\<rparr>"
  by (simp add: setProperty_def empty_params_def)

lemma setProperty_proto_empty:
  "own (setProperty empty_params ''__proto__'' v) = []"
  by (simp add: setProperty_def empty_params_def proto_setter_found_def)

lemma parseParameter_proto_empty:
  "PARAM_RE arg = Some (''__proto__'', val) \<Longrightarrow> parseParameter J empty_params arg = Inr P \<Longrightarrow> own P = []"
  by (auto simp: parseParameter_def setProperty_proto_empty split: option.splits if_splits)

lemma not_startsWith_true_false:
  "\<not> startsWith ''true'' ''json:''" "\<not> startsWith ''false'' ''json:''"
  by (simp_all add: startsWith_def)

text \<open>
  A token whose value has no \<open>json:\<close> prefix (any token, in index.js) is stored as a
  string or a boolean, and writing the name, \<open>=\<close> and that value gives the token back.
\<close>

lemma parseParameters_plain_single:
  assumes "PARAM_RE arg = Some (name, val)" and "\<not> startsWith val ''json:''"
    and "name \<noteq> ''__proto__''"
  shows "\<exists>w. parseParameters J [arg] = Inr \<lparr>own = [(name, w)], proto = ObjectPrototype\<rparr>
            \<and> spec_reserialize name w = Some arg"
proof -
  from assms(1) have arg: "arg = name @ CHR ''='' # val"
    by (simp add: PARAM_RE_def split_name_value_Some)
  show ?thesis
  proof (cases "name = ''@''")
    case True
    with assms arg show ?thesis
      by (simp add: parseParameters_single parseParameter_def setProperty_empty spec_reserialize_def)
  next
    case False
    with assms arg show ?thesis
      by (auto simp: parseParameters_single parseParameter_def setProperty_empty spec_reserialize_def)
  qed
qed

lemma parseParameters_idx_plain_single:
  assumes "PARAM_RE_idx arg = Some (name, val)" and "name \<noteq> ''__proto__''"
  shows "\<exists>w. parseParameters_idx [arg] = Inr \<lparr>own = [(name, w)], proto = ObjectPrototype\<rparr>
            \<and> spec_reserialize name w = Some arg"
proof -
  from assms(1) have arg: "arg = name @ CHR ''='' # val"
    by (simp add: PARAM_RE_idx_Some)
  with assms show ?thesis
    by (auto simp: parseParameters_idx_single parseParameter_idx_def setProperty_empty spec_reserialize_def)
qed

text \<open>
  A token with a \<open>json:\<close> value: when \<open>JSON.parse\<close> reads back what \<open>JSON.stringify\<close> writes
  for the stored value, the re-serialised token is parsed to the same parameter.
\<close>

lemma parseParameters_json_single:
  assumes m: "PARAM_RE arg = Some (name, val)" and j: "startsWith val ''json:''"
    and p: "parseParameters J [arg] = Inr \<lparr>own = [(name, w)], proto = ObjectPrototype\<rparr>"
    and r: "J (S w) = Some w"
  shows "parseParameters J [spec_reserialize_json S name w]
           = Inr \<lparr>own = [(name, w)], proto = ObjectPrototype\<rparr>"
proof -
  from m have n: "name \<noteq> []" "CHR ''='' \<notin> set name"
    by (simp_all add: PARAM_RE_def split_name_value_Some)
  then have m': "PARAM_RE (spec_reserialize_json S name w) = Some (name, ''json:'' @ S w)"
    using PARAM_RE_token [of name "''json:'' @ S w"] by (simp add: spec_reserialize_json_def)
  have sw: "startsWith (''json:'' @ S w) ''json:''" by (simp add: startsWith_def)
  have np: "name \<noteq> ''__proto__''"
  proof
    assume "name = ''__proto__''"
    with m p have "own \<lparr>own = [(name, w)], proto = ObjectPrototype\<rparr> = []"
      using parseParameter_proto_empty [of arg val J] by (simp add: parseParameters_single)
    then show False by simp
  qed
  show ?thesis
  proof (cases "name = ''@''")
    case True
    with m' r show ?thesis
      by (simp add: parseParameters_single parseParameter_def startsWith_def setProperty_empty)
  next
    case False
    with p m j np have "w \<noteq> JStr ''true''" "w \<noteq> JStr ''false''"
      by (auto simp: parseParameters_single parseParameter_def setProperty_empty
          split: option.splits if_splits)
    with False m' r np show ?thesis
      by (simp add: parseParameters_single parseParameter_def startsWith_def setProperty_empty)
  qed
qed


text \<open>
  X2. The round trip for every valid token whose name is not \<open>__proto__\<close>. In the string and
  boolean cases (the value has no \<open>json:\<close> prefix; in index.js, every value) the token is
  parsed to one parameter whose re-serialisation \<open>name + "=" + stringify(value)\<close> is the
  token itself. In the \<open>json:\<close> case of part_000, the stored value written by
  \<open>JSON.stringify\<close> behind \<open>name=json:\<close> is parsed to the same parameter again, provided
  \<open>JSON.parse\<close> reads that text back to the value.
\<close>

theorem parse_reserialize_round_trip:
  "(PARAM_RE arg = Some (name, val) \<and> \<not> startsWith val ''json:'' \<and> name \<noteq> ''__proto__'' \<longrightarrow>
      (\<exists>w. parseParameters J [arg] = Inr \<lparr>own = [(name, w)], proto = ObjectPrototype\<rparr>
           \<and> spec_reserialize name w = Some arg))
   \<and> (PARAM_RE_idx arg = Some (name, val) \<and> name \<noteq> ''__proto__'' \<longrightarrow>
      (\<exists>w. parseParameters_idx [arg] = Inr \<lparr>own = [(name, w)], proto = ObjectPrototype\<rparr>
           \<and> spec_reserialize name w = Some arg))
   \<and> (PARAM_RE arg = Some (name, val) \<and> startsWith val ''json:''
        \<and> parseParameters J [arg] = Inr \<lparr>own = [(name, v)], proto = ObjectPrototype\<rparr>
        \<and> J (S v) = Some v \<longrightarrow>
      parseParameters J [spec_reserialize_json S name v]
        = Inr \<lparr>own = [(name, v)], proto = ObjectPrototype\<rparr>)"
  using parseParameters_plain_single [of arg name val J]
    parseParameters_idx_plain_single [of arg name val]
    parseParameters_json_single [of arg name val J v S]
  by blast

text \<open>
  The instances of the round trip at \<open>x=true\<close>, at \<open>name=My VM\<close> and at
  \<open>x=json:{ "a" : 1 }\<close>, whose re-serialisation is \<open>x=json:{"a":1}\<close>.
\<close>

theorem parse_reserialize_round_trip_witness:
  "parseParameters sample_JSON_parse [''x=true'']
      = Inr \<lparr>own = [(''x'', JBool True)], proto = ObjectPrototype\<rparr>
   \<and> spec_reserialize ''x'' (JBool True) = Some ''x=true''
   \<and> parseParameters_idx [''name=My VM'']
      = Inr \<lparr>own = [(''name'', JStr ''My VM'')], proto = ObjectPrototype\<rparr>
   \<and> spec_reserialize ''name'' (JStr ''My VM'') = Some ''name=My VM''
   \<and> parseParameters sample_JSON_parse [''x=json:{ \"a\" : 1 }'']
      = Inr \<lparr>own = [(''x'', JObj [(''a'', JNum 1)])], proto = ObjectPrototype\<rparr>
   \<and> spec_reserialize_json sample_JSON_stringify ''x'' (JObj [(''a'', JNum 1)]) = ''x=json:{\"a\":1}''
   \<and> parseParameters sample_JSON_parse [''x=json:{\"a\":1}'']
      = Inr \<lparr>own = [(''x'', JObj [(''a'', JNum 1)])], proto = ObjectPrototype\<rparr>"
proof -
  have m1: "PARAM_RE ''x=true'' = Some (''x'', ''true'')"
    and m2: "PARAM_RE_idx ''name=My VM'' = Some (''name'', ''My VM'')"
    and m3: "PARAM_RE ''x=json:{ \"a\" : 1 }'' = Some (''x'', ''json:{ \"a\" : 1 }'')"
    by (simp_all add: PARAM_RE_def PARAM_RE_idx_def split_name_value_def)
  have p1: "parseParameters sample_JSON_parse [''x=true'']
      = Inr \<lparr>own = [(''x'', JBool True)], proto = ObjectPrototype\<rparr>"
    by (simp add: parseParameters_def parseParameter_def m1 startsWith_def setProperty_def
        empty_params_def)
  have p2: "parseParameters_idx [''name=My VM'']
      = Inr \<lparr>own = [(''name'', JStr ''My VM'')], proto = ObjectPrototype\<rparr>"
    by (simp add: parseParameters_idx_def parseParameter_idx_def m2 setProperty_def
        empty_params_def)
  have p3: "parseParameters sample_JSON_parse [''x=json:{ \"a\" : 1 }'']
      = Inr \<lparr>own = [(''x'', JObj [(''a'', JNum 1)])], proto = ObjectPrototype\<rparr>"
    by (simp add: parseParameters_def parseParameter_def m3 startsWith_def setProperty_def
        empty_params_def sample_JSON_parse_def)
  have s3: "spec_reserialize_json sample_JSON_stringify ''x'' (JObj [(''a'', JNum 1)]) = ''x=json:{\"a\":1}''"
    by (simp add: spec_reserialize_json_def sample_JSON_stringify_def)
  have j3: "sample_JSON_parse (sample_JSON_stringify (JObj [(''a'', JNum 1)])) = Some (JObj [(''a'', JNum 1)])"
    by (simp add: sample_JSON_parse_def sample_JSON_stringify_def)
  from parse_reserialize_round_trip [where arg = "''x=true''" and name = "''x''" and val = "''true''"
      and J = sample_JSON_parse] m1 p1
  have r1: "spec_reserialize ''x'' (JBool True) = Some ''x=true''"
    by (simp add: startsWith_def)
  from parse_reserialize_round_trip [where arg = "''name=My VM''" and name = "''name''"
      and val = "''My VM''"] m2 p2
  have r2: "spec_reserialize ''name'' (JStr ''My VM'') = Some ''name=My VM''"
    by simp
  from parse_reserialize_round_trip [where arg = "''x=json:{ \"a\" : 1 }''" and name = "''x''"
      and val = "''json:{ \"a\" : 1 }''" and J = sample_JSON_parse and S = sample_JSON_stringify
      and v = "JObj [(''a'', JNum 1)]"] m3 p3 j3
  have r3: "parseParameters sample_JSON_parse [''x=json:{\"a\":1}'']
      = Inr \<lparr>own = [(''x'', JObj [(''a'', JNum 1)])], proto = ObjectPrototype\<rparr>"
    by (simp add: startsWith_def s3)
  from p1 r1 p2 r2 p3 s3 r3 show ?thesis by blast
qed

text \<open>
  C8. For every valid token \<open>name=value\<close>, parsing the token and re-serialising the
  stored value as \<open>name + "=" + stringify(value)\<close> gives an equivalent token. At the valid
  token \<open>__proto__=x\<close> both parsers return an object with no parameter at all: the
  assignment \<open>params['__proto__'] = 'x'\<close> runs the prototype setter, which ignores a
  string, so there is no stored value to write back. (The token \<open>proto=x\<close> beside it is
  stored and written back as it should be.)
\<close>

theorem parseParameters_drops_proto:
  "PARAM_RE ''__proto__=x'' = Some (''__proto__'', ''x'')
   \<and> PARAM_RE_idx ''__proto__=x'' = Some (''__proto__'', ''x'')
   \<and> (\<forall>J. parseParameters J [''__proto__=x''] = Inr \<lparr>own = [], proto = ObjectPrototype\<rparr>)
   \<and> parseParameters_idx [''__proto__=x''] = Inr \<lparr>own = [], proto = ObjectPrototype\<rparr>
   \<and> (\<forall>J. parseParameters J [''proto=x'']
          = Inr \<lparr>own = [(''proto'', JStr ''x'')], proto = ObjectPrototype\<rparr>)
   \<and> spec_reserialize ''proto'' (JStr ''x'') = Some ''proto=x''"
  by (simp add: PARAM_RE_def PARAM_RE_idx_def split_name_value_def parseParameters_def
      parseParameters_idx_def parseParameter_def parseParameter_idx_def startsWith_def
      setProperty_def proto_setter_found_def empty_params_def spec_reserialize_def)


end
